theory Spec2Isabelle
  imports Complex_Main "HOL-Library.Word"
begin

unbundle bit_operations_syntax

section \<open>JavaScript values used by the upload page\<close>

text \<open>
  A JavaScript string is a sequence of UTF-16 code units; \<open>charCodeAt\<close> reads one
  code unit, a number from 0 to 65535. A string is therefore a list of 16-bit words.
\<close>

type_synonym js_string = "16 word list"

text \<open>
  \<open>ToInt32\<close> of ECMAScript on an integer-valued number: the value modulo \<open>2^32\<close>, read as
  a signed 32-bit integer. The bitwise operators apply it to each operand.
\<close>

definition toInt32 :: "int \<Rightarrow> int" where
  "toInt32 x = (x + 2 ^ 31) mod 2 ^ 32 - 2 ^ 31"

text \<open>\<open>a << n\<close>: the left operand as an int32, shifted by \<open>n mod 32\<close>, as an int32.\<close>

definition js_shl :: "int \<Rightarrow> nat \<Rightarrow> int" where
  "js_shl a n = toInt32 (toInt32 a * 2 ^ (n mod 32))"

text \<open>\<open>a & b\<close>: both operands as int32, bitwise conjunction.\<close>

definition js_and :: "int \<Rightarrow> int \<Rightarrow> int" where
  "js_and a b = toInt32 a AND toInt32 b"

text \<open>
  String constants of the source are ASCII; \<open>js\<close> writes one as code units.
\<close>

definition js :: "string \<Rightarrow> js_string" where
  "js s = map (\<lambda>c. of_nat (of_char c)) s"

subsection \<open>Numbers\<close>

text \<open>
  A number of JavaScript is a double. A finite one is modelled by the real it holds
  (\<open>NaN\<close>, the infinities and the sign of zero are left out). \<open>roundToDouble\<close> is the
  number value of a real: the double nearest to it, the one with the even significand
  when two are equally near. For \<open>x > 0\<close> with \<open>2^l \<le> x < 2^(l+1)\<close> the doubles near
  \<open>x\<close> are the multiples of \<open>2^e\<close>, \<open>e = l - 52\<close> (and \<open>e = -1074\<close> in the subnormal
  range); a result of \<open>2^1024\<close> or more stands for the overflow to \<open>Infinity\<close>.
  \<open>bitlen n\<close> is the number of binary digits of \<open>n\<close>, \<open>ilog2 x\<close> is \<open>l\<close>, and
  \<open>scaleBy x e\<close> is \<open>x * 2^e\<close>.
\<close>

fun bitlen :: "nat \<Rightarrow> nat" where
  "bitlen n = (if n = 0 then 0 else Suc (bitlen (n div 2)))"

declare bitlen.simps [simp del]

definition ilog2 :: "real \<Rightarrow> int" where
  "ilog2 x = (if 1 \<le> x then int (bitlen (nat \<lfloor>x\<rfloor>)) - 1
              else - int (bitlen (nat \<lceil>1 / x\<rceil> - 1)))"

definition scaleBy :: "real \<Rightarrow> int \<Rightarrow> real" where
  "scaleBy x e = (if 0 \<le> e then x * 2 ^ nat e else x / 2 ^ nat (- e))"

definition roundHalfEven :: "real \<Rightarrow> int" where
  "roundHalfEven y =
     (let f = \<lfloor>y\<rfloor>; r = y - of_int f
      in if r < 1 / 2 then f
         else if 1 / 2 < r then f + 1
         else if even f then f else f + 1)"

definition roundToDouble :: "real \<Rightarrow> real" where
  "roundToDouble x =
     (if x = 0 then 0
      else (let a = \<bar>x\<bar>;
                e = max (ilog2 a - 52) (- 1074);
                m = roundHalfEven (scaleBy a (- e))
            in sgn x * scaleBy (of_int m) e))"

text \<open>The sum \<open>a + b\<close> of two numbers: the exact sum, rounded.\<close>

definition js_add :: "real \<Rightarrow> real \<Rightarrow> real" where
  "js_add a b = roundToDouble (a + b)"

subsection \<open>\<open>Number.prototype.toString\<close> on a file size\<close>

text \<open>
  \<open>file.size\<close> is a number with a non-negative integer value (the File API converts the
  byte count, an \<open>unsigned long long\<close>, to the nearest number; \<open>toString\<close> below does the
  same to a value that no number holds). ECMAScript prints a number \<open>x\<close> with the
  integers \<open>n\<close>, \<open>k\<close>, \<open>s\<close> such that \<open>k \<ge> 1\<close>, \<open>10^(k-1) \<le> s < 10^k\<close>, the number
  value of \<open>s * 10^(n-k)\<close> is \<open>x\<close> and \<open>k\<close> is as small as possible; among several such
  \<open>s\<close> the one nearest to \<open>x\<close> is taken, and the even one of two equally near. For
  \<open>k \<le> n \<le> 21\<close> the result is the digits of \<open>s\<close> followed by \<open>n - k\<close> zeros, which are
  the decimal digits of the integer \<open>s * 10^(n-k)\<close>; for \<open>n > 21\<close> it is the first digit
  of \<open>s\<close>, a point and the other digits when there are any, \<open>e+\<close> and the digits of
  \<open>n - 1\<close>.

  \<open>shortestFrom v d k\<close> looks for \<open>s * 10^(n-k)\<close> with \<open>k\<close> digits or more, for a value
  \<open>v\<close> of \<open>d\<close> decimal digits: with \<open>p = 10^(d-k)\<close> the multiples of \<open>p\<close> nearest to
  \<open>v\<close> are \<open>lo\<close> below and \<open>hi\<close> above, and if neither has the number value \<open>v\<close> no
  multiple of \<open>p\<close> has. \<open>digitsOf\<close> gives the decimal digits of an integer, most
  significant first; code unit 48 is the digit 0, 46 the point, 101 and 43 are \<open>e\<close> and
  \<open>+\<close>.
\<close>

fun numDigits :: "nat \<Rightarrow> nat" where
  "numDigits n = (if n < 10 then 1 else 1 + numDigits (n div 10))"

declare numDigits.simps [simp del]

fun digitsOf :: "nat \<Rightarrow> js_string" where
  "digitsOf n =
     (if n < 10 then [of_nat (48 + n)]
      else digitsOf (n div 10) @ [of_nat (48 + n mod 10)])"

declare digitsOf.simps [simp del]

function shortestFrom :: "nat \<Rightarrow> nat \<Rightarrow> nat \<Rightarrow> nat" where
  "shortestFrom v d k =
     (if d \<le> k then v
      else (let p = 10 ^ (d - k); lo = (v div p) * p; hi = lo + p;
                okLo = (roundToDouble (of_nat lo) = of_nat v);
                okHi = (roundToDouble (of_nat hi) = of_nat v)
            in if okLo \<and> okHi
               then (if v - lo < hi - v then lo
                     else if hi - v < v - lo then hi
                     else if even (v div p) then lo else hi)
               else if okLo then lo
               else if okHi then hi
               else shortestFrom v d (k + 1)))"
  by pat_completeness auto
termination
  by (relation "measure (\<lambda>(v, d, k). d - k)") auto

declare shortestFrom.simps [simp del]

fun stripZeros :: "nat \<Rightarrow> nat" where
  "stripZeros c = (if c \<noteq> 0 \<and> c mod 10 = 0 then stripZeros (c div 10) else c)"

declare stripZeros.simps [simp del]

definition exponentForm :: "nat \<Rightarrow> js_string" where
  "exponentForm c =
     (let ds = digitsOf (stripZeros c); n = numDigits c
      in (if length ds = 1 then ds else hd ds # 46 # tl ds) @ [101, 43] @ digitsOf (n - 1))"

definition toString :: "nat \<Rightarrow> js_string" where
  "toString v =
     (let x = roundToDouble (of_nat v)
      in if 2 ^ 1024 \<le> x then js ''Infinity''
         else (let n = nat \<lfloor>x\<rfloor>; c = shortestFrom n (numDigits n) 1
               in if c < 10 ^ 21 then digitsOf c else exponentForm c))"

section \<open>The simulation-mode score of \<open>processFile\<close> (UploadCV)\<close>

text \<open>
  The source, in the branch taken when the backend is not available:
  \<^verbatim>\<open>
    let hash = 0
    const str = file.name + file.size.toString()
    for (let i = 0; i < str.length; i++) {
        const char = str.charCodeAt(i)
        hash = ((hash << 5) - hash) + char
        hash = hash & hash
    }
    const score = (Math.abs(hash) % 61) + 40
  \<close>
  The subtraction and the addition are operations on numbers (they do not wrap); the
  operands stay far below \<open>2^53\<close>, so they are exact and modelled on \<open>int\<close>. The loop
  is the recursion \<open>hashLoop\<close> on the index \<open>i\<close>; \<open>charCodeAt\<close> is only called with
  \<open>i < str.length\<close>. \<open>Math.abs\<close> is the absolute value of the number, and \<open>%\<close> on a
  non-negative left operand is \<open>mod\<close>.
\<close>

function hashLoop :: "js_string \<Rightarrow> nat \<Rightarrow> int \<Rightarrow> int" where
  "hashLoop str i hash =
     (if i < length str
      then (let char = uint (str ! i);
                hash1 = (js_shl hash 5 - hash) + char;
                hash2 = js_and hash1 hash1
            in hashLoop str (Suc i) hash2)
      else hash)"
  by pat_completeness auto
termination
  by (relation "measure (\<lambda>(str, i, hash). length str - i)") auto

declare hashLoop.simps [simp del]

definition fallbackScore :: "js_string \<Rightarrow> nat \<Rightarrow> int" where
  "fallbackScore name sz =
     (let hash = hashLoop (name @ toString sz) 0 0 in \<bar>hash\<bar> mod 61 + 40)"

section \<open>The upload list and \<open>processFile\<close>\<close>

text \<open>
  The browser's \<open>File\<close>, with the three properties \<open>processFile\<close> reads
  (\<open>file_size\<close> is the value of \<open>file.size\<close>, a number with an integer value), and
  the entry of the upload list (interface \<open>UploadedFile\<close>). Field names carry a prefix,
  since \<open>id\<close> and \<open>size\<close> are constants of HOL and several records share \<open>name\<close>. An
  optional property (\<open>score?\<close>) is an \<open>option\<close>: \<open>None\<close> is \<open>undefined\<close>.
\<close>

record File =
  file_name :: js_string
  file_size :: nat
  file_type :: js_string

datatype upload_status = Uploading | Parsing | Scored | Error

record UploadedFile =
  uf_id :: js_string
  uf_name :: js_string
  uf_size :: nat
  uf_status :: upload_status
  uf_progress :: nat
  uf_score :: "real option"
  uf_candidateId :: "int option"
  uf_candidateName :: "js_string option"
  uf_error :: "js_string option"

text \<open>
  What \<open>api.scoreCV\<close> resolves to, with the three properties \<open>processFile\<close> reads
  (\<open>candidate_name\<close> is \<open>string | null\<close>); the breakdown and the parsed data of the
  response are not read there. \<open>Job\<close> likewise keeps the \<open>id\<close> that is read.
\<close>

record ScoreResult =
  candidate_id :: int
  candidate_name :: "js_string option"
  total_score :: real

record Job =
  job_id :: int

text \<open>
  The state of the component: \<open>files\<close>, \<open>backendAvailable\<close> (\<open>boolean | null\<close>,
  initially \<open>null\<close>) and \<open>job\<close>. One call of \<open>processFile\<close> is modelled at a time:
  the list \<open>files\<close> that the call reads is the list its \<open>setFiles\<close> updates apply to.
\<close>

record UploadCV_state =
  files :: "UploadedFile list"
  backendAvailable :: "bool option"
  job :: "Job option"

text \<open>
  What a call does besides updating the list: the two alerts and the request to the
  backend. The random \<open>fileId\<close> and the outcome of the request
  (\<open>Inl\<close> the message of the error caught, \<open>Inr\<close> the response) are parameters.
\<close>

datatype effect =
    Alert_unsupported js_string
  | Alert_duplicate js_string
  | ScoreCV_request File int bool

definition validTypes :: "js_string list" where
  "validTypes =
     [js ''application/pdf'',
      js ''application/vnd.openxmlformats-officedocument.wordprocessingml.document'']"

definition isDuplicate :: "UploadedFile list \<Rightarrow> File \<Rightarrow> bool" where
  "isDuplicate fs file =
     list_ex (\<lambda>f. uf_name f = file_name file \<and> uf_size f = file_size file) fs"

definition newFile :: "js_string \<Rightarrow> File \<Rightarrow> UploadedFile" where
  "newFile fileId file =
     \<lparr>uf_id = fileId, uf_name = file_name file, uf_size = file_size file,
      uf_status = Uploading, uf_progress = 0, uf_score = None,
      uf_candidateId = None, uf_candidateName = None, uf_error = None\<rparr>"

definition setProgress :: "js_string \<Rightarrow> nat \<Rightarrow> UploadedFile list \<Rightarrow> UploadedFile list" where
  "setProgress fileId i prev =
     map (\<lambda>f. if uf_id f = fileId then f\<lparr>uf_progress := i\<rparr> else f) prev"

text \<open>\<open>for (let i = 0; i <= 100; i += 25)\<close>, each round one \<open>setFiles\<close>.\<close>

function progressLoop :: "js_string \<Rightarrow> nat \<Rightarrow> UploadedFile list \<Rightarrow> UploadedFile list" where
  "progressLoop fileId i prev =
     (if i \<le> 100 then progressLoop fileId (i + 25) (setProgress fileId i prev) else prev)"
  by pat_completeness auto
termination
  by (relation "measure (\<lambda>(fileId, i, prev). 101 - i)") auto

declare progressLoop.simps [simp del]

definition setParsing :: "js_string \<Rightarrow> UploadedFile list \<Rightarrow> UploadedFile list" where
  "setParsing fileId prev =
     map (\<lambda>f. if uf_id f = fileId then f\<lparr>uf_status := Parsing, uf_progress := 100\<rparr> else f) prev"

definition setScored :: "js_string \<Rightarrow> real \<Rightarrow> UploadedFile list \<Rightarrow> UploadedFile list" where
  "setScored fileId score prev =
     map (\<lambda>f. if uf_id f = fileId then f\<lparr>uf_status := Scored, uf_score := Some score\<rparr> else f) prev"

text \<open>\<open>result.candidate_name || undefined\<close>: \<open>null\<close> and the empty string give \<open>undefined\<close>.\<close>

definition orUndefined :: "js_string option \<Rightarrow> js_string option" where
  "orUndefined n = (case n of None \<Rightarrow> None | Some s \<Rightarrow> if s = [] then None else Some s)"

definition setBackendScored :: "js_string \<Rightarrow> ScoreResult \<Rightarrow> UploadedFile list \<Rightarrow> UploadedFile list" where
  "setBackendScored fileId result prev =
     map (\<lambda>f. if uf_id f = fileId
               then f\<lparr>uf_status := Scored, uf_score := Some (total_score result),
                      uf_candidateId := Some (candidate_id result),
                      uf_candidateName := orUndefined (candidate_name result)\<rparr>
               else f) prev"

definition setError :: "js_string \<Rightarrow> js_string \<Rightarrow> UploadedFile list \<Rightarrow> UploadedFile list" where
  "setError fileId msg prev =
     map (\<lambda>f. if uf_id f = fileId then f\<lparr>uf_status := Error, uf_error := Some msg\<rparr> else f) prev"

text \<open>\<open>job?.id || 1\<close>: no job, or the id 0, gives 1.\<close>

definition jobIdOr1 :: "Job option \<Rightarrow> int" where
  "jobIdOr1 j = (case j of None \<Rightarrow> 1 | Some jb \<Rightarrow> if job_id jb = 0 then 1 else job_id jb)"

text \<open>
  \<open>processFile\<close>. \<open>!backendAvailable\<close> holds for \<open>null\<close> and for \<open>false\<close>, so the
  simulation branch is taken unless \<open>backendAvailable\<close> is \<open>true\<close>.
\<close>

definition processFile ::
  "(File \<Rightarrow> int \<Rightarrow> bool \<Rightarrow> js_string + ScoreResult) \<Rightarrow> js_string \<Rightarrow> UploadCV_state \<Rightarrow> File
     \<Rightarrow> UploadCV_state \<times> effect list" where
  "processFile scoreCV fileId st file =
     (if \<not> List.member validTypes (file_type file)
      then (st, [Alert_unsupported (file_name file)])
      else if isDuplicate (files st) file
      then (st, [Alert_duplicate (file_name file)])
      else
        (let fs1 = files st @ [newFile fileId file];
             fs2 = progressLoop fileId 0 fs1;
             fs3 = setParsing fileId fs2
         in if backendAvailable st \<noteq> Some True
            then (let score = fallbackScore (file_name file) (file_size file)
                  in (st\<lparr>files := setScored fileId (of_int score) fs3\<rparr>, []))
            else (case scoreCV file (jobIdOr1 (job st)) True of
                    Inr result \<Rightarrow>
                      (st\<lparr>files := setBackendScored fileId result fs3\<rparr>,
                       [ScoreCV_request file (jobIdOr1 (job st)) True])
                  | Inl msg \<Rightarrow>
                      (st\<lparr>files := setError fileId msg fs3\<rparr>,
                       [ScoreCV_request file (jobIdOr1 (job st)) True]))))"

text \<open>
  The effect of \<open>init\<close>: the health check sets \<open>backendAvailable\<close>; when it succeeds,
  \<open>api.getJob(1)\<close> sets the job unless it throws (\<open>None\<close>).
\<close>

definition init :: "bool \<Rightarrow> Job option \<Rightarrow> UploadCV_state \<Rightarrow> UploadCV_state" where
  "init isHealthy jobData st =
     (let st1 = st\<lparr>backendAvailable := Some isHealthy\<rparr>
      in if isHealthy then (case jobData of Some j \<Rightarrow> st1\<lparr>job := Some j\<rparr> | None \<Rightarrow> st1)
         else st1)"

text \<open>
  The entry that a call in simulation mode leaves for its file, the state the component
  starts in (\<open>useState([])\<close>, \<open>useState(null)\<close>, \<open>useState(null)\<close>), and the values
  used in the examples: the file \<open>cv.pdf\<close> of 12345 bytes, and a backend that answers
  every request with a total score of 76, a given candidate id and no candidate name.
\<close>

definition estimatedEntry :: "js_string \<Rightarrow> File \<Rightarrow> UploadedFile" where
  "estimatedEntry fileId file =
     \<lparr>uf_id = fileId, uf_name = file_name file, uf_size = file_size file,
      uf_status = Scored, uf_progress = 100,
      uf_score = Some (of_int (fallbackScore (file_name file) (file_size file))),
      uf_candidateId = None, uf_candidateName = None, uf_error = None\<rparr>"

definition sample_file :: File where
  "sample_file =
     \<lparr>file_name = js ''cv.pdf'', file_size = 12345, file_type = js ''application/pdf''\<rparr>"

definition initial_state :: UploadCV_state where
  "initial_state = \<lparr>files = [], backendAvailable = None, job = None\<rparr>"

definition scoreCV_responds :: "int \<Rightarrow> File \<Rightarrow> int \<Rightarrow> bool \<Rightarrow> js_string + ScoreResult" where
  "scoreCV_responds cid file jobId save =
     Inr \<lparr>candidate_id = cid, candidate_name = None, total_score = 76\<rparr>"

text \<open>
  A later state of the page: the simulation banner is up and the list holds one scored
  entry, for a file named \<open>cv.pdf\<close> of one byte.
\<close>

definition later_state :: UploadCV_state where
  "later_state =
     \<lparr>files = [estimatedEntry (js ''f0'') (sample_file\<lparr>file_size := 1\<rparr>)],
      backendAvailable = Some False, job = None\<rparr>"

subsection \<open>What the page shows of the list\<close>

text \<open>
  \<open>getStatusTag\<close> (its \<open>default\<close> case is not reached by one of the four statuses)
  and \<open>getScoreColor\<close> of UploadCV, and the row that \<open>files.map\<close> renders for an
  entry: the name shown (\<open>file.candidateName || file.name\<close>), the size
  given to \<open>formatFileSize\<close>, the width of the progress bar, the error background, the
  status tag and, when \<open>score\<close> is defined, the score link: its target
  (\<open>file.candidateId ? `/candidate/${file.candidateId}` : '#'\<close>, \<open>None\<close> for \<open>'#'\<close>), its
  colour and the number given to \<open>toFixed(1)\<close>.
\<close>

datatype status_tag = Tag_Scored | Tag_Parsing | Tag_Uploading | Tag_Error "js_string option"

fun getStatusTag :: "upload_status \<Rightarrow> js_string option \<Rightarrow> status_tag" where
  "getStatusTag Scored err = Tag_Scored"
| "getStatusTag Parsing err = Tag_Parsing"
| "getStatusTag Uploading err = Tag_Uploading"
| "getStatusTag Error err = Tag_Error err"

datatype score_colour = Colour_success | Colour_warning | Colour_danger

definition getScoreColor :: "real \<Rightarrow> score_colour" where
  "getScoreColor score =
     (if score \<ge> 80 then Colour_success
      else if score \<ge> 60 then Colour_warning
      else Colour_danger)"

record score_link =
  link_to :: "int option"
  link_colour :: score_colour
  link_number :: real

record row_view =
  shown_name :: js_string
  shown_size :: nat
  shown_progress :: nat
  shown_error_background :: bool
  shown_tag :: status_tag
  shown_score :: "score_link option"

definition rowView :: "UploadedFile \<Rightarrow> row_view" where
  "rowView file =
     \<lparr>shown_name =
        (case uf_candidateName file of
           None \<Rightarrow> uf_name file
         | Some n \<Rightarrow> if n = [] then uf_name file else n),
      shown_size = uf_size file,
      shown_progress = uf_progress file,
      shown_error_background = (uf_status file = Error),
      shown_tag = getStatusTag (uf_status file) (uf_error file),
      shown_score =
        (case uf_score file of
           None \<Rightarrow> None
         | Some sc \<Rightarrow>
             Some \<lparr>link_to =
                     (case uf_candidateId file of
                        None \<Rightarrow> None
                      | Some c \<Rightarrow> if c = 0 then None else Some c),
                   link_colour = getScoreColor sc,
                   link_number = sc\<rparr>)\<rparr>"

text \<open>
  The banner above the list: the simulation notice under \<open>backendAvailable === false\<close>,
  the connected notice under \<open>backendAvailable === true\<close>, none while it is \<open>null\<close>.
\<close>

datatype banner = Banner_simulation | Banner_connected

definition shownBanner :: "bool option \<Rightarrow> banner option" where
  "shownBanner b =
     (case b of None \<Rightarrow> None | Some False \<Rightarrow> Some Banner_simulation | Some True \<Rightarrow> Some Banner_connected)"

text \<open>
  The banner and the rows. The rest of the page is the job card, a function of \<open>job\<close>,
  and the counts by status, a function of the tags of the rows.
\<close>

definition pageView :: "UploadCV_state \<Rightarrow> banner option \<times> row_view list" where
  "pageView st = (shownBanner (backendAvailable st), map rowView (files st))"

section \<open>Score bands (Dashboard, CandidateDetail)\<close>

text \<open>
  \<open>getScoreClass\<close> is declared twice, with the same body, in Dashboard and in
  CandidateDetail. A score is a number; \<open>real\<close> leaves out \<open>NaN\<close> and the infinities.
\<close>

datatype score_class = High | Medium | Low

definition getScoreClass_Dashboard :: "real \<Rightarrow> score_class" where
  "getScoreClass_Dashboard score =
     (if score \<ge> 80 then High
      else if score \<ge> 60 then Medium
      else Low)"

definition getScoreClass_CandidateDetail :: "real \<Rightarrow> score_class" where
  "getScoreClass_CandidateDetail score =
     (if score \<ge> 80 then High
      else if score \<ge> 60 then Medium
      else Low)"

section \<open>The weights of the job template (JobTemplate)\<close>

text \<open>
  \<open>WeightState\<close>: six numbers. The sliders of education, skills and bootcamp set a weight
  with \<open>parseInt\<close>; \<open>loadJobData\<close> stores whatever numbers the backend sends.
  \<open>Object.values(weights)\<close> lists the six values in the order of the keys, and
  \<open>reduce((a, b) => a + b, 0)\<close> adds them from the left, each sum a number.
\<close>

record WeightState =
  w_education :: real
  w_experience :: real
  w_skills :: real
  w_bootcamp :: real
  w_portfolio :: real
  w_location :: real

definition object_values :: "WeightState \<Rightarrow> real list" where
  "object_values weights =
     [w_education weights, w_experience weights, w_skills weights,
      w_bootcamp weights, w_portfolio weights, w_location weights]"

definition totalWeight :: "WeightState \<Rightarrow> real" where
  "totalWeight weights = foldl (\<lambda>a b. js_add a b) 0 (object_values weights)"

text \<open>
  The weight panel: the total in the centre of the chart, green when it is 100 and red
  otherwise, and the warning box, rendered under \<open>totalWeight !== 100\<close> with the total in
  its text.
\<close>

record weight_panel =
  panel_total :: real
  panel_colour :: score_colour
  panel_warning :: "real option"

definition weightPanel :: "WeightState \<Rightarrow> weight_panel" where
  "weightPanel weights =
     \<lparr>panel_total = totalWeight weights,
      panel_colour = (if totalWeight weights = 100 then Colour_success else Colour_danger),
      panel_warning = (if totalWeight weights \<noteq> 100 then Some (totalWeight weights) else None)\<rparr>"

text \<open>
  \<open>buildRequirements\<close> copies each weight into the requirement of its criterion; of the
  requirements only the six weights are kept here. \<open>handleSave\<close> alerts and returns when
  the backend is not available, and otherwise sends the requirements: \<open>api.updateJob\<close>
  when the page edits a job (\<open>Some\<close> its id), \<open>api.createJob\<close> when it does not.
\<close>

definition buildRequirements :: "WeightState \<Rightarrow> WeightState" where
  "buildRequirements weights =
     \<lparr>w_education = w_education weights,
      w_experience = w_experience weights,
      w_skills = w_skills weights,
      w_bootcamp = w_bootcamp weights,
      w_portfolio = w_portfolio weights,
      w_location = w_location weights\<rparr>"

datatype save_effect =
    Alert_backend_unavailable
  | UpdateJob int WeightState
  | CreateJob WeightState

definition handleSave :: "bool option \<Rightarrow> int option \<Rightarrow> WeightState \<Rightarrow> save_effect" where
  "handleSave backend editing weights =
     (if backend \<noteq> Some True then Alert_backend_unavailable
      else (case editing of
              Some i \<Rightarrow> UpdateJob i (buildRequirements weights)
            | None \<Rightarrow> CreateJob (buildRequirements weights)))"

text \<open>
  A weight that is an integer of magnitude at most \<open>2^50\<close>, as the sliders set; and three
  assignments used in the examples: the weights the page starts with, the numbers that
  the decimals 0.1, 0.2, 0.3, 99.1, 0.2 and 0.1 denote, and a weight of \<open>2^-60\<close> beside
  one of 100.
\<close>

definition integerWeight :: "real \<Rightarrow> bool" where
  "integerWeight x \<longleftrightarrow> x \<in> \<int> \<and> \<bar>x\<bar> \<le> 2 ^ 50"

definition default_weights :: WeightState where
  "default_weights =
     \<lparr>w_education = 15, w_experience = 25, w_skills = 40,
      w_bootcamp = 10, w_portfolio = 15, w_location = 5\<rparr>"

definition decimal_weights :: WeightState where
  "decimal_weights =
     \<lparr>w_education = roundToDouble (1 / 10), w_experience = roundToDouble (2 / 10),
      w_skills = roundToDouble (3 / 10), w_bootcamp = roundToDouble (991 / 10),
      w_portfolio = roundToDouble (2 / 10), w_location = roundToDouble (1 / 10)\<rparr>"

definition tiny_weights :: WeightState where
  "tiny_weights =
     \<lparr>w_education = 1 / 2 ^ 60, w_experience = 100, w_skills = 0,
      w_bootcamp = 0, w_portfolio = 0, w_location = 0\<rparr>"

section \<open>The candidates and the job requirements of \<open>data/mockData.ts\<close>\<close>

text \<open>
  The interface \<open>Candidate\<close> of the data file and the constants \<open>candidates\<close> and
  \<open>jobRequirements\<close>, field by field. Numbers are \<open>real\<close>. The status is one of
  \<open>'shortlisted' | 'review' | 'rejected' | 'pending'\<close> in the data file and one of
  \<open>'review' | 'shortlisted' | 'interview' | 'rejected'\<close> in \<open>services/api.ts\<close>; the
  datatype has the five literals. The check mark in two \<open>details\<close> strings is the code
  unit U+2713.
\<close>

datatype candidate_status = Shortlisted | Review | Rejected | Pending | Interview

record Skill =
  skill_name :: js_string
  skill_matched :: bool

record PortfolioLink =
  pl_platform :: js_string
  pl_url :: js_string

record Education =
  edu_level :: js_string
  edu_major :: js_string
  edu_institution :: js_string
  edu_year :: real

record Experience =
  exp_years :: real
  exp_title :: js_string
  exp_company :: js_string

record DetailScore =
  ds_score :: real
  ds_weight :: real
  ds_details :: js_string

record SkillsScore =
  ss_score :: real
  ss_weight :: real
  ss_matched :: "js_string list"
  ss_missing :: "js_string list"

record PortfolioScore =
  ps_score :: real
  ps_weight :: real
  ps_platforms :: "js_string list"

record ScoreBreakdown =
  sb_education :: DetailScore
  sb_experience :: DetailScore
  sb_skills :: SkillsScore
  sb_bootcamp :: DetailScore
  sb_portfolio :: PortfolioScore
  sb_location :: DetailScore

record Candidate =
  c_id :: js_string
  c_name :: js_string
  c_email :: js_string
  c_phone :: js_string
  c_location :: js_string
  c_score :: real
  c_status :: candidate_status
  c_skills :: "Skill list"
  c_portfolio :: "PortfolioLink list"
  c_bootcamp :: "js_string option"
  c_education :: Education
  c_experience :: Experience
  c_scoreBreakdown :: ScoreBreakdown

definition check_mark :: "16 word" where
  "check_mark = 0x2713"

definition candidate_1 :: Candidate where
  "candidate_1 =
     \<lparr>c_id = js ''1'', c_name = js ''Sarah Chen'', c_email = js ''sarah@email.com'',
      c_phone = js ''+62 812-3456-7890'', c_location = js ''Jakarta'',
      c_score = 92.5, c_status = Shortlisted,
      c_skills =
        [\<lparr>skill_name = js ''Python'', skill_matched = True\<rparr>,
         \<lparr>skill_name = js ''SQL'', skill_matched = True\<rparr>,
         \<lparr>skill_name = js ''Docker'', skill_matched = True\<rparr>],
      c_portfolio = [\<lparr>pl_platform = js ''GitHub'', pl_url = js ''github.com/sarahchen''\<rparr>],
      c_bootcamp = Some (js ''Hacktiv8''),
      c_education =
        \<lparr>edu_level = js ''S1'', edu_major = js ''Teknik Informatika'',
         edu_institution = js ''UI'', edu_year = 2020\<rparr>,
      c_experience =
        \<lparr>exp_years = 5, exp_title = js ''Senior Developer'', exp_company = js ''Gojek''\<rparr>,
      c_scoreBreakdown =
        \<lparr>sb_education =
           \<lparr>ds_score = 90, ds_weight = 15, ds_details = js ''S1 Teknik Informatika - UI (2020)''\<rparr>,
         sb_experience =
           \<lparr>ds_score = 100, ds_weight = 25, ds_details = js ''5 years as Senior Developer''\<rparr>,
         sb_skills =
           \<lparr>ss_score = 100, ss_weight = 40,
            ss_matched = [js ''Python'', js ''SQL'', js ''Docker''], ss_missing = []\<rparr>,
         sb_bootcamp =
           \<lparr>ds_score = 80, ds_weight = 10, ds_details = js ''Hacktiv8 - Full Stack Program''\<rparr>,
         sb_portfolio = \<lparr>ps_score = 80, ps_weight = 15, ps_platforms = [js ''GitHub'']\<rparr>,
         sb_location =
           \<lparr>ds_score = 100, ds_weight = 5,
            ds_details = js ''Jakarta '' @ [check_mark] @ js '' (Preferred location)''\<rparr>\<rparr>\<rparr>"

definition candidate_2 :: Candidate where
  "candidate_2 =
     \<lparr>c_id = js ''2'', c_name = js ''John Doe'', c_email = js ''john@email.com'',
      c_phone = js ''+62 812-3456-7891'', c_location = js ''Jakarta'',
      c_score = 78.5, c_status = Review,
      c_skills =
        [\<lparr>skill_name = js ''Python'', skill_matched = True\<rparr>,
         \<lparr>skill_name = js ''SQL'', skill_matched = True\<rparr>,
         \<lparr>skill_name = js ''REST API'', skill_matched = False\<rparr>],
      c_portfolio =
        [\<lparr>pl_platform = js ''GitHub'', pl_url = js ''github.com/johndoe''\<rparr>,
         \<lparr>pl_platform = js ''Website'', pl_url = js ''johndoe.dev''\<rparr>],
      c_bootcamp = Some (js ''Dicoding''),
      c_education =
        \<lparr>edu_level = js ''S1'', edu_major = js ''Teknik Informatika'',
         edu_institution = js ''UI'', edu_year = 2020\<rparr>,
      c_experience =
        \<lparr>exp_years = 4, exp_title = js ''Software Developer'', exp_company = js ''Tokopedia''\<rparr>,
      c_scoreBreakdown =
        \<lparr>sb_education =
           \<lparr>ds_score = 80, ds_weight = 15, ds_details = js ''S1 Teknik Informatika - UI (2020)''\<rparr>,
         sb_experience =
           \<lparr>ds_score = 100, ds_weight = 25, ds_details = js ''4 years as Software Developer''\<rparr>,
         sb_skills =
           \<lparr>ss_score = 70, ss_weight = 40,
            ss_matched = [js ''Python'', js ''SQL'', js ''Docker''],
            ss_missing = [js ''REST API'']\<rparr>,
         sb_bootcamp =
           \<lparr>ds_score = 60, ds_weight = 10, ds_details = js ''Dicoding - Backend Developer Path''\<rparr>,
         sb_portfolio =
           \<lparr>ps_score = 80, ps_weight = 15, ps_platforms = [js ''GitHub'', js ''Website'']\<rparr>,
         sb_location =
           \<lparr>ds_score = 100, ds_weight = 5,
            ds_details = js ''Jakarta '' @ [check_mark] @ js '' (Preferred location)''\<rparr>\<rparr>\<rparr>"

definition candidate_3 :: Candidate where
  "candidate_3 =
     \<lparr>c_id = js ''3'', c_name = js ''Andi Pratama'', c_email = js ''andi@email.com'',
      c_phone = js ''+62 812-3456-7892'', c_location = js ''Bandung'',
      c_score = 65.0, c_status = Review,
      c_skills =
        [\<lparr>skill_name = js ''Python'', skill_matched = True\<rparr>,
         \<lparr>skill_name = js ''SQL'', skill_matched = False\<rparr>,
         \<lparr>skill_name = js ''Docker'', skill_matched = False\<rparr>],
      c_portfolio =
        [\<lparr>pl_platform = js ''LinkedIn'', pl_url = js ''linkedin.com/in/andipratama''\<rparr>],
      c_bootcamp = None,
      c_education =
        \<lparr>edu_level = js ''S1'', edu_major = js ''Sistem Informasi'',
         edu_institution = js ''ITB'', edu_year = 2021\<rparr>,
      c_experience =
        \<lparr>exp_years = 2, exp_title = js ''Junior Developer'', exp_company = js ''Startup ABC''\<rparr>,
      c_scoreBreakdown =
        \<lparr>sb_education =
           \<lparr>ds_score = 70, ds_weight = 15, ds_details = js ''S1 Sistem Informasi - ITB (2021)''\<rparr>,
         sb_experience =
           \<lparr>ds_score = 60, ds_weight = 25, ds_details = js ''2 years as Junior Developer''\<rparr>,
         sb_skills =
           \<lparr>ss_score = 40, ss_weight = 40,
            ss_matched = [js ''Python''], ss_missing = [js ''SQL'', js ''Docker'']\<rparr>,
         sb_bootcamp =
           \<lparr>ds_score = 0, ds_weight = 10, ds_details = js ''No bootcamp/training''\<rparr>,
         sb_portfolio = \<lparr>ps_score = 40, ps_weight = 15, ps_platforms = [js ''LinkedIn'']\<rparr>,
         sb_location =
           \<lparr>ds_score = 80, ds_weight = 5, ds_details = js ''Bandung (Acceptable)''\<rparr>\<rparr>\<rparr>"

definition candidate_4 :: Candidate where
  "candidate_4 =
     \<lparr>c_id = js ''4'', c_name = js ''Budi Santoso'', c_email = js ''budi@email.com'',
      c_phone = js ''+62 812-3456-7893'', c_location = js ''Surabaya'',
      c_score = 42.0, c_status = Rejected,
      c_skills =
        [\<lparr>skill_name = js ''Python'', skill_matched = False\<rparr>,
         \<lparr>skill_name = js ''SQL'', skill_matched = False\<rparr>,
         \<lparr>skill_name = js ''Docker'', skill_matched = False\<rparr>],
      c_portfolio = [],
      c_bootcamp = None,
      c_education =
        \<lparr>edu_level = js ''D3'', edu_major = js ''Teknik Komputer'',
         edu_institution = js ''Politeknik'', edu_year = 2022\<rparr>,
      c_experience =
        \<lparr>exp_years = 1, exp_title = js ''IT Support'', exp_company = js ''PT Random''\<rparr>,
      c_scoreBreakdown =
        \<lparr>sb_education =
           \<lparr>ds_score = 50, ds_weight = 15,
            ds_details = js ''D3 Teknik Komputer - Politeknik (2022)''\<rparr>,
         sb_experience =
           \<lparr>ds_score = 30, ds_weight = 25,
            ds_details = js ''1 year as IT Support (not relevant)''\<rparr>,
         sb_skills =
           \<lparr>ss_score = 0, ss_weight = 40,
            ss_matched = [], ss_missing = [js ''Python'', js ''SQL'', js ''Docker'']\<rparr>,
         sb_bootcamp =
           \<lparr>ds_score = 0, ds_weight = 10, ds_details = js ''No bootcamp/training''\<rparr>,
         sb_portfolio = \<lparr>ps_score = 0, ps_weight = 15, ps_platforms = []\<rparr>,
         sb_location =
           \<lparr>ds_score = 60, ds_weight = 5, ds_details = js ''Surabaya (Remote possible)''\<rparr>\<rparr>\<rparr>"

definition candidates :: "Candidate list" where
  "candidates = [candidate_1, candidate_2, candidate_3, candidate_4]"

record EducationReq =
  er_minLevel :: js_string
  er_preferredMajor :: "js_string list"
  er_weight :: real

record ExperienceReq =
  xr_minYears :: real
  xr_relevantTitles :: "js_string list"
  xr_weight :: real

record SkillsReq =
  sr_required :: "js_string list"
  sr_preferred :: "js_string list"
  sr_weight :: real

record BootcampReq =
  br_preferredProviders :: "js_string list"
  br_weight :: real

record PortfolioReq =
  pr_required :: bool
  pr_preferredPlatforms :: "js_string list"
  pr_minProjects :: real
  pr_weight :: real

record LocationReq =
  lr_allowed :: "js_string list"
  lr_weight :: real

record JobRequirementsData =
  jr_title :: js_string
  jr_department :: js_string
  jr_education :: EducationReq
  jr_experience :: ExperienceReq
  jr_skills :: SkillsReq
  jr_bootcamp :: BootcampReq
  jr_portfolio :: PortfolioReq
  jr_location :: LocationReq

definition jobRequirements :: JobRequirementsData where
  "jobRequirements =
     \<lparr>jr_title = js ''Backend Developer'',
      jr_department = js ''Engineering'',
      jr_education =
        \<lparr>er_minLevel = js ''S1'',
         er_preferredMajor = [js ''Informatika'', js ''Teknik Komputer'', js ''Sistem Informasi''],
         er_weight = 15\<rparr>,
      jr_experience =
        \<lparr>xr_minYears = 3,
         xr_relevantTitles = [js ''Developer'', js ''Engineer'', js ''Programmer''],
         xr_weight = 25\<rparr>,
      jr_skills =
        \<lparr>sr_required = [js ''Python'', js ''SQL'', js ''REST API''],
         sr_preferred = [js ''Docker'', js ''AWS'', js ''PostgreSQL''],
         sr_weight = 40\<rparr>,
      jr_bootcamp =
        \<lparr>br_preferredProviders =
           [js ''Hacktiv8'', js ''Binar Academy'', js ''Dicoding'', js ''Purwadhika'',
            js ''Sanbercode'', js ''Coursera''],
         br_weight = 10\<rparr>,
      jr_portfolio =
        \<lparr>pr_required = True,
         pr_preferredPlatforms =
           [js ''GitHub'', js ''GitLab'', js ''Personal Website'', js ''Behance'', js ''Dribbble''],
         pr_minProjects = 2,
         pr_weight = 15\<rparr>,
      jr_location =
        \<lparr>lr_allowed = [js ''Jakarta'', js ''Bandung'', js ''Remote''],
         lr_weight = 5\<rparr>\<rparr>"

subsection \<open>The scoring rules the data are read against\<close>

text \<open>
  Modelled from the spec: the scoring engine that derives the initial status of a
  candidate from the total score is not among the sources (the pages read its result
  from the backend). Section 4.3, step 4: a total score of at least 80 gives
  \<open>shortlisted\<close>, one from 60 up to 80 gives \<open>review\<close>, one below 60 gives \<open>rejected\<close>.
\<close>

definition derive_status :: "real \<Rightarrow> candidate_status" where
  "derive_status t =
     (if t \<ge> 80 then Shortlisted
      else if t \<ge> 60 then Review
      else Rejected)"

text \<open>
  The invariant of the skills criterion: \<open>matched\<close> and \<open>missing\<close> have no element in
  common, and together they hold exactly the required skills.
\<close>

definition skills_partition :: "js_string list \<Rightarrow> js_string list \<Rightarrow> js_string list \<Rightarrow> bool" where
  "skills_partition required matched missing \<longleftrightarrow>
     set matched \<inter> set missing = {} \<and> set matched \<union> set missing = set required"

text \<open>
  Membership of a location in the allowed list without regard to case: both sides are
  compared after folding the letters A to Z to lower case (the data hold no other
  letters).
\<close>

definition lower_unit :: "16 word \<Rightarrow> 16 word" where
  "lower_unit c = (if 65 \<le> c \<and> c \<le> 90 then c + 32 else c)"

definition toLowerCase :: "js_string \<Rightarrow> js_string" where
  "toLowerCase s = map lower_unit s"

definition memberCI :: "js_string \<Rightarrow> js_string list \<Rightarrow> bool" where
  "memberCI x xs = list_ex (\<lambda>y. toLowerCase y = toLowerCase x) xs"

subsection \<open>The algorithm as the specification words it\<close>

text \<open>
  The specification: a 32-bit signed rolling hash over the concatenation of the filename
  and the decimal string of the size, multiply by 31 and add per character, wrapping on
  overflow; then \<open>abs(hash) mod 61 + 40\<close>. The decimal string of \<open>n\<close> is written out by
  position: it has as many digits as \<open>n\<close> has, and its digit at position \<open>i\<close> from the
  left is the digit of \<open>n\<close> at the power of ten of that position; \<open>decimal_value\<close> reads
  a string of digits back as a number. The hash is a 32-bit word, whose arithmetic
  wraps, read as a signed value at the end.
\<close>

definition spec_decimal :: "nat \<Rightarrow> js_string" where
  "spec_decimal n =
     map (\<lambda>i. of_nat (48 + (n div 10 ^ (numDigits n - 1 - i)) mod 10)) [0..<numDigits n]"

definition decimal_value :: "js_string \<Rightarrow> nat" where
  "decimal_value s = foldl (\<lambda>a c. 10 * a + (unat c - 48)) 0 s"

definition spec_step :: "32 word \<Rightarrow> 16 word \<Rightarrow> 32 word" where
  "spec_step h c = 31 * h + ucast c"

definition spec_hash :: "js_string \<Rightarrow> 32 word" where
  "spec_hash s = foldl spec_step 0 s"

definition spec_estimate :: "js_string \<Rightarrow> nat \<Rightarrow> int" where
  "spec_estimate filename fileSizeBytes =
     \<bar>sint (spec_hash (filename @ spec_decimal fileSizeBytes))\<bar> mod 61 + 40"

section \<open>Properties of numbers and of their decimal strings\<close>

text \<open>Rules that evaluate the definitions above on numerals.\<close>

lemma bitlen_eval:
  "bitlen 0 = 0" "bitlen (Suc 0) = 1"
  "bitlen (numeral k) = Suc (bitlen (numeral k div 2))"
  by (subst bitlen.simps, simp add: bitlen.simps)+

lemma ilog2_eval:
  "ilog2 1 = 0"
  "ilog2 (numeral a) = int (bitlen (numeral a)) - 1"
  "ilog2 (numeral a / numeral b) =
     (if (1 :: real) \<le> numeral a / numeral b
      then int (bitlen (nat \<lfloor>numeral a / numeral b :: real\<rfloor>)) - 1
      else - int (bitlen (nat \<lceil>1 / (numeral a / numeral b) :: real\<rceil> - 1)))"
  "ilog2 (1 / numeral b) =
     (if (1 :: real) \<le> 1 / numeral b
      then int (bitlen (nat \<lfloor>1 / numeral b :: real\<rfloor>)) - 1
      else - int (bitlen (nat \<lceil>1 / (1 / numeral b) :: real\<rceil> - 1)))"
  by (simp_all add: ilog2_def bitlen_eval)

lemma roundToDouble_pos:
  "0 < x \<Longrightarrow> roundToDouble x =
     scaleBy (of_int (roundHalfEven (scaleBy x (- max (ilog2 x - 52) (- 1074)))))
       (max (ilog2 x - 52) (- 1074))"
  by (simp add: roundToDouble_def Let_def)

lemma roundToDouble_eval:
  "roundToDouble 0 = 0"
  "roundToDouble 1 =
     scaleBy (of_int (roundHalfEven (scaleBy 1 (- max (ilog2 1 - 52) (- 1074)))))
       (max (ilog2 1 - 52) (- 1074))"
  "roundToDouble (numeral a) =
     scaleBy (of_int (roundHalfEven (scaleBy (numeral a) (- max (ilog2 (numeral a) - 52) (- 1074)))))
       (max (ilog2 (numeral a) - 52) (- 1074))"
  "roundToDouble (numeral a / numeral b) =
     scaleBy (of_int (roundHalfEven (scaleBy (numeral a / numeral b)
        (- max (ilog2 (numeral a / numeral b) - 52) (- 1074)))))
       (max (ilog2 (numeral a / numeral b) - 52) (- 1074))"
  "roundToDouble (1 / numeral b) =
     scaleBy (of_int (roundHalfEven (scaleBy (1 / numeral b)
        (- max (ilog2 (1 / numeral b) - 52) (- 1074)))))
       (max (ilog2 (1 / numeral b) - 52) (- 1074))"
  by (simp_all add: roundToDouble_pos) (simp add: roundToDouble_def)

lemma scaleBy_eval:
  "scaleBy x 0 = x"
  "scaleBy x 1 = x * 2"
  "scaleBy x (- 1) = x / 2"
  "scaleBy x (numeral n) = x * 2 ^ numeral n"
  "scaleBy x (- numeral n) = x / 2 ^ numeral n"
  by (simp_all add: scaleBy_def)

lemma roundHalfEven_unfold:
  "roundHalfEven y =
     (if y - of_int \<lfloor>y\<rfloor> < 1 / 2 then \<lfloor>y\<rfloor>
      else if 1 / 2 < y - of_int \<lfloor>y\<rfloor> then \<lfloor>y\<rfloor> + 1
      else if even \<lfloor>y\<rfloor> then \<lfloor>y\<rfloor> else \<lfloor>y\<rfloor> + 1)"
  by (simp add: roundHalfEven_def Let_def)

lemmas double_eval = bitlen_eval ilog2_eval roundToDouble_eval scaleBy_eval roundHalfEven_unfold

lemma numDigits_eval:
  "numDigits 0 = 1" "numDigits (Suc 0) = 1"
  "numDigits (numeral k) = (if numeral k < (10 :: nat) then 1 else 1 + numDigits (numeral k div 10))"
  by (subst numDigits.simps, simp)+

lemma digitsOf_eval:
  "digitsOf 0 = [48]" "digitsOf (Suc 0) = [49]"
  "digitsOf (numeral k) =
     (if numeral k < (10 :: nat) then [of_nat (48 + numeral k)]
      else digitsOf (numeral k div 10) @ [of_nat (48 + numeral k mod 10)])"
  by (subst digitsOf.simps, simp)+

lemma stripZeros_eval:
  "stripZeros 0 = 0" "stripZeros (Suc 0) = Suc 0"
  "stripZeros (numeral k) =
     (if numeral k mod (10 :: nat) = 0 then stripZeros (numeral k div 10) else numeral k)"
  by (subst stripZeros.simps, simp)+

lemma shortestFrom_unfold:
  "shortestFrom v d k =
     (if d \<le> k then v
      else if roundToDouble (of_nat ((v div 10 ^ (d - k)) * 10 ^ (d - k))) = of_nat v
            \<and> roundToDouble (of_nat ((v div 10 ^ (d - k)) * 10 ^ (d - k) + 10 ^ (d - k))) = of_nat v
      then (if v - (v div 10 ^ (d - k)) * 10 ^ (d - k)
                 < (v div 10 ^ (d - k)) * 10 ^ (d - k) + 10 ^ (d - k) - v
            then (v div 10 ^ (d - k)) * 10 ^ (d - k)
            else if (v div 10 ^ (d - k)) * 10 ^ (d - k) + 10 ^ (d - k) - v
                      < v - (v div 10 ^ (d - k)) * 10 ^ (d - k)
            then (v div 10 ^ (d - k)) * 10 ^ (d - k) + 10 ^ (d - k)
            else if even (v div 10 ^ (d - k)) then (v div 10 ^ (d - k)) * 10 ^ (d - k)
            else (v div 10 ^ (d - k)) * 10 ^ (d - k) + 10 ^ (d - k))
      else if roundToDouble (of_nat ((v div 10 ^ (d - k)) * 10 ^ (d - k))) = of_nat v
      then (v div 10 ^ (d - k)) * 10 ^ (d - k)
      else if roundToDouble (of_nat ((v div 10 ^ (d - k)) * 10 ^ (d - k) + 10 ^ (d - k))) = of_nat v
      then (v div 10 ^ (d - k)) * 10 ^ (d - k) + 10 ^ (d - k)
      else shortestFrom v d (k + 1))"
  by (subst shortestFrom.simps) (simp add: Let_def)

lemma shortestFrom_one: "shortestFrom v (Suc 0) (Suc 0) = v"
  by (subst shortestFrom.simps) simp

lemmas shortestFrom_eval = shortestFrom_one shortestFrom_unfold [of "numeral a"] for a

lemma toString_unfold:
  "toString v =
     (if 2 ^ 1024 \<le> roundToDouble (of_nat v) then js ''Infinity''
      else if shortestFrom (nat \<lfloor>roundToDouble (of_nat v)\<rfloor>)
                (numDigits (nat \<lfloor>roundToDouble (of_nat v)\<rfloor>)) 1 < 10 ^ 21
      then digitsOf (shortestFrom (nat \<lfloor>roundToDouble (of_nat v)\<rfloor>)
                (numDigits (nat \<lfloor>roundToDouble (of_nat v)\<rfloor>)) 1)
      else exponentForm (shortestFrom (nat \<lfloor>roundToDouble (of_nat v)\<rfloor>)
                (numDigits (nat \<lfloor>roundToDouble (of_nat v)\<rfloor>)) 1))"
  by (simp add: toString_def Let_def)

lemma exponentForm_unfold:
  "exponentForm c =
     (if length (digitsOf (stripZeros c)) = 1 then digitsOf (stripZeros c)
      else hd (digitsOf (stripZeros c)) # 46 # tl (digitsOf (stripZeros c)))
     @ [101, 43] @ digitsOf (numDigits c - 1)"
  by (simp add: exponentForm_def Let_def)

lemmas toString_eval = toString_unfold exponentForm_unfold shortestFrom_eval numDigits_eval
  digitsOf_eval stripZeros_eval double_eval


text \<open>
  Integers below \<open>2^53\<close> are numbers, and a number from \<open>2^53\<close> up is the number value
  of no smaller integer; so such an integer prints as its decimal digits.
\<close>

lemma bitlen_le: "n < 2 ^ k \<Longrightarrow> bitlen n \<le> k"
proof (induction k arbitrary: n)
  case 0
  then show ?case by (simp add: bitlen.simps)
next
  case (Suc k)
  show ?case
  proof (cases "n = 0")
    case True
    then show ?thesis by (simp add: bitlen.simps)
  next
    case False
    have "n div 2 < 2 ^ k" using Suc.prems by simp
    then have "bitlen (n div 2) \<le> k" by (rule Suc.IH)
    then show ?thesis using False by (subst bitlen.simps) simp
  qed
qed

lemma bitlen_gt: "2 ^ k \<le> n \<Longrightarrow> k < bitlen n"
proof (induction k arbitrary: n)
  case 0
  then show ?case by (subst bitlen.simps) simp
next
  case (Suc k)
  have "2 ^ k \<le> n div 2" using Suc.prems by simp
  then have "k < bitlen (n div 2)" by (rule Suc.IH)
  moreover have "n \<noteq> 0"
  proof
    assume "n = 0"
    with Suc.prems show False by simp
  qed
  ultimately show ?case by (subst bitlen.simps) simp
qed

lemma bitlen_pow_le: "0 < n \<Longrightarrow> 2 ^ (bitlen n - 1) \<le> n"
proof (induction n rule: bitlen.induct)
  case (1 n)
  show ?case
  proof (cases "n div 2 = 0")
    case True
    then have "bitlen (n div 2) = 0" by (simp add: bitlen.simps)
    then have "bitlen n = 1" using "1.prems" by (subst bitlen.simps) simp
    then show ?thesis using "1.prems" by simp
  next
    case False
    then have p: "0 < n div 2" by simp
    have n0: "n \<noteq> 0" using "1.prems" by simp
    have ih: "2 ^ (bitlen (n div 2) - 1) \<le> n div 2" using "1.IH" [OF n0 p] .
    have b: "0 < bitlen (n div 2)" using p by (subst bitlen.simps) simp
    have "bitlen n = Suc (bitlen (n div 2))" using n0 by (subst bitlen.simps) simp
    then have "2 ^ (bitlen n - 1) = (2 :: nat) * 2 ^ (bitlen (n div 2) - 1)"
      using b by (cases "bitlen (n div 2)") simp_all
    also have "\<dots> \<le> 2 * (n div 2)" using ih by simp
    also have "\<dots> \<le> n" by simp
    finally show ?thesis .
  qed
qed

lemma roundHalfEven_of_int: "roundHalfEven (of_int n) = n"
  by (simp add: roundHalfEven_def)

lemma roundHalfEven_ge_floor: "\<lfloor>y\<rfloor> \<le> roundHalfEven y"
  by (simp add: roundHalfEven_def Let_def)

lemma scaleBy_back: "scaleBy (scaleBy x (- e)) e = x"
  by (simp add: scaleBy_def)

lemma roundToDouble_exact:
  assumes "0 < x" and "scaleBy x (- max (ilog2 x - 52) (- 1074)) = of_int n"
  shows "roundToDouble x = x"
proof -
  have "roundToDouble x =
          scaleBy (of_int (roundHalfEven (scaleBy x (- max (ilog2 x - 52) (- 1074)))))
            (max (ilog2 x - 52) (- 1074))"
    using assms(1) by (rule roundToDouble_pos)
  also have "\<dots> = scaleBy (scaleBy x (- max (ilog2 x - 52) (- 1074))) (max (ilog2 x - 52) (- 1074))"
    by (simp add: assms(2) roundHalfEven_of_int)
  also have "\<dots> = x" by (rule scaleBy_back)
  finally show ?thesis .
qed

lemma roundToDouble_of_nat:
  assumes "m < 2 ^ 53"
  shows "roundToDouble (of_nat m) = of_nat m"
proof (cases "m = 0")
  case True
  then show ?thesis by (simp add: roundToDouble_def)
next
  case False
  then have pos: "(0 :: real) < of_nat m" and one: "(1 :: real) \<le> of_nat m" by simp_all
  have l: "bitlen m \<le> 53" using assms by (rule bitlen_le)
  have il: "ilog2 (of_nat m) = int (bitlen m) - 1"
    using one by (simp add: ilog2_def)
  define j where "j = 53 - bitlen m"
  have e: "max (ilog2 (of_nat m) - 52) (- 1074) = - int j"
    using l by (simp add: il j_def)
  have "scaleBy (of_nat m) (- max (ilog2 (of_nat m) - 52) (- 1074)) = of_int (int (m * 2 ^ j))"
    unfolding e by (simp add: scaleBy_def)
  with pos show ?thesis by (rule roundToDouble_exact)
qed

lemma roundToDouble_minus: "roundToDouble (- x) = - roundToDouble x"
  by (simp add: roundToDouble_def Let_def sgn_minus)

lemma roundToDouble_of_int:
  assumes "\<bar>n\<bar> < 2 ^ 53"
  shows "roundToDouble (of_int n) = of_int n"
proof (cases "0 \<le> n")
  case True
  then have "nat n < 2 ^ 53" using assms by (simp add: nat_less_iff)
  then have "roundToDouble (of_nat (nat n)) = of_nat (nat n)" by (rule roundToDouble_of_nat)
  then show ?thesis using True by simp
next
  case False
  then have "nat (- n) < 2 ^ 53" using assms by (simp add: nat_less_iff)
  then have "roundToDouble (of_nat (nat (- n))) = of_nat (nat (- n))" by (rule roundToDouble_of_nat)
  then have "roundToDouble (- of_int n) = - of_int n" using False by simp
  then show ?thesis by (simp add: roundToDouble_minus)
qed

lemma roundToDouble_large:
  assumes "2 ^ 53 \<le> n"
  shows "(2 :: real) ^ 53 \<le> roundToDouble (of_nat n)"
proof -
  have pos: "(0 :: real) < of_nat n" and one: "(1 :: real) \<le> of_nat n" and n0: "0 < n"
    using assms by (simp_all add: less_le_trans [OF _ assms] order_trans [OF _ assms])
  have l: "53 < bitlen n" using assms by (rule bitlen_gt)
  define j where "j = bitlen n - 53"
  have j: "0 < j" and bl: "bitlen n - 1 = j + 52" using l by (simp_all add: j_def)
  have il: "ilog2 (of_nat n) = int (bitlen n) - 1"
    using one by (simp add: ilog2_def)
  have e: "max (ilog2 (of_nat n) - 52) (- 1074) = int j"
    using l by (simp add: il j_def)
  have "(2 :: nat) ^ (j + 52) \<le> n" using bitlen_pow_le [OF n0] unfolding bl .
  then have "(2 :: real) ^ (j + 52) \<le> of_nat n"
    by (metis of_nat_le_iff of_nat_numeral of_nat_power)
  then have y: "(2 :: real) ^ 52 \<le> of_nat n / 2 ^ j"
    by (simp add: power_add field_simps)
  have "(2 :: int) ^ 52 \<le> \<lfloor>of_nat n / 2 ^ j :: real\<rfloor>"
    using y by (simp add: le_floor_iff)
  also have "\<dots> \<le> roundHalfEven (of_nat n / 2 ^ j)" by (rule roundHalfEven_ge_floor)
  finally have m: "(2 :: real) ^ 52 \<le> of_int (roundHalfEven (of_nat n / 2 ^ j))"
    by (metis of_int_le_iff of_int_numeral of_int_power)
  have r: "roundToDouble (of_nat n) = of_int (roundHalfEven (of_nat n / 2 ^ j)) * 2 ^ j"
    using j by (simp add: roundToDouble_pos [OF pos] e scaleBy_def)
  have "(2 :: real) ^ 53 = 2 ^ 52 * 2 ^ 1" by simp
  also have "\<dots> \<le> of_int (roundHalfEven (of_nat n / 2 ^ j)) * 2 ^ j"
    using m j by (intro mult_mono) (simp_all add: self_le_power)
  finally show ?thesis by (simp add: r)
qed


lemma shortestFrom_small:
  assumes "v < 2 ^ 53"
  shows "shortestFrom v d k = v"
proof (induction "d - k" arbitrary: k)
  case 0
  then show ?case by (subst shortestFrom.simps) simp
next
  case (Suc n)
  define p :: nat where "p = 10 ^ (d - k)"
  define lo where "lo = (v div p) * p"
  have p: "0 < p" by (simp add: p_def)
  have lo: "lo \<le> v" by (simp add: lo_def)
  have hi: "v < lo + p"
    using p unfolding lo_def
    by (metis add.commute dividend_less_times_div mult.commute)
  have okLo: "roundToDouble (of_nat lo) = of_nat v \<longleftrightarrow> lo = v"
  proof -
    have "lo < 2 ^ 53" using lo assms by simp
    then have "roundToDouble (of_nat lo) = of_nat lo" by (rule roundToDouble_of_nat)
    then show ?thesis by simp
  qed
  have okHi: "roundToDouble (of_nat (lo + p)) \<noteq> of_nat v"
  proof (cases "lo + p < 2 ^ 53")
    case True
    then have "roundToDouble (of_nat (lo + p)) = of_nat (lo + p)" by (rule roundToDouble_of_nat)
    then show ?thesis using hi by simp
  next
    case False
    then have "(2 :: real) ^ 53 \<le> roundToDouble (of_nat (lo + p))"
      by (intro roundToDouble_large) simp
    moreover have "(of_nat v :: real) < 2 ^ 53"
      using assms by (metis of_nat_less_iff of_nat_numeral of_nat_power)
    ultimately show ?thesis by simp
  qed
  have nk: "\<not> d \<le> k" using Suc.hyps(2) by simp
  have ih: "shortestFrom v d (k + 1) = v"
    using Suc.hyps(2) by (intro Suc.hyps(1)) simp
  have unf: "shortestFrom v d k =
     (if roundToDouble (of_nat lo) = of_nat v \<and> roundToDouble (of_nat (lo + p)) = of_nat v
      then (if v - lo < lo + p - v then lo
            else if lo + p - v < v - lo then lo + p
            else if even (v div p) then lo else lo + p)
      else if roundToDouble (of_nat lo) = of_nat v then lo
      else if roundToDouble (of_nat (lo + p)) = of_nat v then lo + p
      else shortestFrom v d (k + 1))"
    by (subst shortestFrom.simps)
       (simp only: nk if_False Let_def p_def [symmetric] lo_def [symmetric])
  show ?case
  proof (cases "lo = v")
    case True
    then have "roundToDouble (of_nat lo) = of_nat v" using okLo by blast
    then show ?thesis using okHi True unfolding unf by simp
  next
    case False
    then have "roundToDouble (of_nat lo) \<noteq> of_nat v" using okLo by blast
    then show ?thesis using okHi ih unfolding unf by simp
  qed
qed

lemma toString_small:
  assumes "v < 2 ^ 53"
  shows "toString v = digitsOf v"
proof -
  have r: "roundToDouble (of_nat v) = of_nat v" using assms by (rule roundToDouble_of_nat)
  have "(of_nat v :: real) < 2 ^ 53"
    using assms by (metis of_nat_less_iff of_nat_numeral of_nat_power)
  also have "(2 :: real) ^ 53 \<le> 2 ^ 1024" by (rule power_increasing) simp_all
  finally have big: "\<not> (2 :: real) ^ 1024 \<le> of_nat v" by simp
  have "v < 2 ^ 53" by (rule assms)
  also have "(2 :: nat) ^ 53 < 10 ^ 21" by simp
  finally have small: "v < 10 ^ 21" .
  show ?thesis
    using big small by (simp add: toString_def Let_def r shortestFrom_small [OF assms])
qed

lemma digitsOf_spec_decimal: "digitsOf n = spec_decimal n"
proof (induction n rule: digitsOf.induct)
  case (1 n)
  show ?case
  proof (cases "n < 10")
    case True
    then have "numDigits n = 1" by (subst numDigits.simps) simp
    then show ?thesis
      using True by (subst digitsOf.simps) (simp add: spec_decimal_def)
  next
    case False
    define d where "d = numDigits (n div 10)"
    have nd: "numDigits n = Suc d"
      using False by (subst numDigits.simps) (simp add: d_def)
    have ih: "digitsOf (n div 10) = spec_decimal (n div 10)"
      using False by (rule "1.IH")
    have "map (\<lambda>i. (of_nat (48 + (n div 10 ^ (Suc d - 1 - i)) mod 10) :: 16 word)) [0..<d]
            = map (\<lambda>i. of_nat (48 + ((n div 10) div 10 ^ (d - 1 - i)) mod 10)) [0..<d]"
    proof (rule map_cong [OF refl])
      fix i assume "i \<in> set [0..<d]"
      then have i: "i < d" by simp
      then have "Suc d - 1 - i = Suc (d - 1 - i)" by simp
      then have "n div 10 ^ (Suc d - 1 - i) = (n div 10) div 10 ^ (d - 1 - i)"
        by (simp add: div_mult2_eq)
      then show "(of_nat (48 + (n div 10 ^ (Suc d - 1 - i)) mod 10) :: 16 word)
                   = of_nat (48 + ((n div 10) div 10 ^ (d - 1 - i)) mod 10)"
        by simp
    qed
    then have "spec_decimal n = spec_decimal (n div 10) @ [of_nat (48 + n mod 10)]"
      by (simp add: spec_decimal_def nd d_def [symmetric])
    then show ?thesis
      using False ih by (subst digitsOf.simps) simp
  qed
qed

lemma decimal_value_digitsOf: "decimal_value (digitsOf n) = n"
proof (induction n rule: digitsOf.induct)
  case (1 n)
  show ?case
  proof (cases "n < 10")
    case True
    have "unat (of_nat (48 + n) :: 16 word) = (48 + n) mod 2 ^ LENGTH(16)"
      by (rule unat_of_nat)
    then have "unat (of_nat (48 + n) :: 16 word) = 48 + n"
      using True by simp
    then show ?thesis
      using True by (subst digitsOf.simps) (simp add: decimal_value_def)
  next
    case False
    have "unat (of_nat (48 + n mod 10) :: 16 word) = (48 + n mod 10) mod 2 ^ LENGTH(16)"
      by (rule unat_of_nat)
    moreover have "48 + n mod 10 < 65536"
      using mod_less_divisor [of 10 n] by linarith
    ultimately have "unat (of_nat (48 + n mod 10) :: 16 word) = 48 + n mod 10"
      by simp
    moreover have "decimal_value (digitsOf (n div 10)) = n div 10"
      using False by (rule "1.IH")
    ultimately show ?thesis
      using False by (subst digitsOf.simps) (simp add: decimal_value_def)
  qed
qed

text \<open>The decimal string of the specification denotes the number it is written for.\<close>

lemma spec_decimal_reads_back: "decimal_value (spec_decimal n) = n"
  using decimal_value_digitsOf [of n] by (simp add: digitsOf_spec_decimal)


text \<open>Sums of integers are exact as long as they stay below \<open>2^53\<close>.\<close>

lemma js_add_exact:
  assumes "a \<in> \<int>" and "b \<in> \<int>" and "\<bar>a + b\<bar> < 2 ^ 53"
  shows "js_add a b = a + b"
proof -
  from assms(1,2) obtain m n where a: "a = of_int m" and b: "b = of_int n"
    by (auto elim!: Ints_cases)
  have "\<bar>of_int (m + n) :: real\<bar> < 2 ^ 53" using assms(3) by (simp add: a b)
  then have "\<bar>m + n\<bar> < 2 ^ 53"
    by (metis of_int_abs of_int_less_iff of_int_numeral of_int_power)
  then have "roundToDouble (of_int (m + n)) = of_int (m + n)" by (rule roundToDouble_of_int)
  then show ?thesis by (simp add: js_add_def a b)
qed

lemma totalWeight_integers:
  assumes "integerWeight (w_education w)" and "integerWeight (w_experience w)"
    and "integerWeight (w_skills w)" and "integerWeight (w_bootcamp w)"
    and "integerWeight (w_portfolio w)" and "integerWeight (w_location w)"
  shows "totalWeight w = w_education w + w_experience w + w_skills w
                         + w_bootcamp w + w_portfolio w + w_location w"
proof -
  have i: "w_education w \<in> \<int>" "w_experience w \<in> \<int>" "w_skills w \<in> \<int>"
      "w_bootcamp w \<in> \<int>" "w_portfolio w \<in> \<int>" "w_location w \<in> \<int>"
    using assms by (simp_all add: integerWeight_def)
  have b: "\<bar>w_education w\<bar> \<le> 2 ^ 50" "\<bar>w_experience w\<bar> \<le> 2 ^ 50" "\<bar>w_skills w\<bar> \<le> 2 ^ 50"
      "\<bar>w_bootcamp w\<bar> \<le> 2 ^ 50" "\<bar>w_portfolio w\<bar> \<le> 2 ^ 50" "\<bar>w_location w\<bar> \<le> 2 ^ 50"
    using assms by (simp_all add: integerWeight_def)
  have s1: "js_add 0 (w_education w) = w_education w"
    using i(1) b(1) by (subst js_add_exact) simp_all
  have s2: "js_add (w_education w) (w_experience w) = w_education w + w_experience w"
    using i(1,2) b(1,2) by (subst js_add_exact) simp_all
  have s3: "js_add (w_education w + w_experience w) (w_skills w)
              = w_education w + w_experience w + w_skills w"
    using i(1,2,3) b(1,2,3) by (subst js_add_exact) simp_all
  have s4: "js_add (w_education w + w_experience w + w_skills w) (w_bootcamp w)
              = w_education w + w_experience w + w_skills w + w_bootcamp w"
    using i(1,2,3,4) b(1,2,3,4) by (subst js_add_exact) simp_all
  have s5: "js_add (w_education w + w_experience w + w_skills w + w_bootcamp w) (w_portfolio w)
              = w_education w + w_experience w + w_skills w + w_bootcamp w + w_portfolio w"
    using i(1,2,3,4,5) b(1,2,3,4,5) by (subst js_add_exact) simp_all
  have s6: "js_add (w_education w + w_experience w + w_skills w + w_bootcamp w + w_portfolio w)
              (w_location w)
              = w_education w + w_experience w + w_skills w + w_bootcamp w + w_portfolio w
                + w_location w"
    using i b by (subst js_add_exact) simp_all
  show ?thesis
    by (simp add: totalWeight_def object_values_def s1 s2 s3 s4 s5 s6)
qed

lemma buildRequirements_same: "buildRequirements w = w"
  by (simp add: buildRequirements_def)

lemma decimal_weights_values:
  "w_education decimal_weights = 3602879701896397 / 36028797018963968"
  "w_experience decimal_weights = 3602879701896397 / 18014398509481984"
  "w_skills decimal_weights = 5404319552844595 / 18014398509481984"
  "w_bootcamp decimal_weights = 3486771274003251 / 35184372088832"
  "w_portfolio decimal_weights = 3602879701896397 / 18014398509481984"
  "w_location decimal_weights = 3602879701896397 / 36028797018963968"
  by (simp_all add: decimal_weights_def double_eval)

lemma totalWeight_decimal_weights: "totalWeight decimal_weights = 100 - 1 / 2 ^ 46"
  by (simp add: totalWeight_def object_values_def decimal_weights_values js_add_def double_eval)

lemma totalWeight_tiny_weights: "totalWeight tiny_weights = 100"
  by (simp add: totalWeight_def object_values_def tiny_weights_def js_add_def double_eval)


section \<open>Properties of the simulation-mode score\<close>

lemma toInt32_sint: "toInt32 x = sint (word_of_int x :: 32 word)"
  by (simp add: toInt32_def int_word_sint)

lemma js_and_self: "js_and a a = toInt32 a"
  by (simp add: js_and_def)

lemma js_step_word:
  "js_and (js_shl (sint w) 5 - sint w + uint c) (js_shl (sint w) 5 - sint w + uint c)
     = sint (spec_step w c)" for w :: "32 word" and c :: "16 word"
proof -
  have "(word_of_int (js_shl (sint w) 5 - sint w + uint c) :: 32 word) = 32 * w - w + ucast c"
    by (simp add: js_shl_def toInt32_sint)
  also have "\<dots> = spec_step w c"
    by (simp add: spec_step_def)
  finally show ?thesis
    by (simp add: js_and_self toInt32_sint)
qed

lemma hashLoop_word:
  "hashLoop str i (sint w) = sint (foldl spec_step w (drop i str))" for w :: "32 word"
proof (induction str i "sint w" arbitrary: w rule: hashLoop.induct)
  case (1 str i)
  show ?case
  proof (cases "i < length str")
    case True
    have d: "drop i str = str ! i # drop (Suc i) str"
      using True by (simp add: Cons_nth_drop_Suc)
    have "hashLoop str i (sint w) = hashLoop str (Suc i) (sint (spec_step w (str ! i)))"
      using True by (subst hashLoop.simps) (simp add: Let_def js_step_word)
    also have "\<dots> = sint (foldl spec_step (spec_step w (str ! i)) (drop (Suc i) str))"
      using True "1.hyps" [OF True refl refl, of "spec_step w (str ! i)"]
      by (simp add: js_step_word)
    finally show ?thesis by (simp add: d)
  next
    case False
    then show ?thesis by (subst hashLoop.simps) simp
  qed
qed

lemma hashLoop_spec_hash: "hashLoop str 0 0 = sint (spec_hash str)"
  using hashLoop_word [of str 0 0] by (simp add: spec_hash_def)

lemma fallbackScore_bounds: "40 \<le> fallbackScore name sz \<and> fallbackScore name sz \<le> 100"
proof -
  have "0 \<le> \<bar>hashLoop (name @ toString sz) 0 0\<bar> mod 61"
    by simp
  moreover have "\<bar>hashLoop (name @ toString sz) 0 0\<bar> mod 61 < 61"
    by simp
  ultimately show ?thesis
    by (simp add: fallbackScore_def Let_def)
qed

lemma fallbackScore_spec_estimate:
  assumes "sz < 2 ^ 53"
  shows "fallbackScore name sz = spec_estimate name sz"
  by (simp add: fallbackScore_def spec_estimate_def Let_def hashLoop_spec_hash
      toString_small [OF assms] digitsOf_spec_decimal)

lemma sample_score: "fallbackScore (js ''cv.pdf'') 12345 = 76"
proof -
  have "spec_estimate (js ''cv.pdf'') 12345 = 76"
    by (simp add: spec_estimate_def spec_hash_def spec_step_def
        digitsOf_spec_decimal [symmetric] digitsOf_eval js_def)
  moreover have "(12345 :: nat) < 2 ^ 53" by simp
  ultimately show ?thesis by (simp add: fallbackScore_spec_estimate)
qed

text \<open>
  Claim C1, as amended. For every filename and every file size below \<open>2^53\<close>, the
  simulation-mode score computed by \<open>processFile\<close> is the score of the specification's
  algorithm (the 32-bit signed rolling hash with step \<open>h \<mapsto> 31 h + charCode\<close> over the
  filename followed by the decimal digits of the size, then \<open>abs(h) mod 61 + 40\<close>); and
  for every file size the score lies between 40 and 100.
\<close>

theorem C1_fallbackScore_is_spec_estimate:
  "(sz < 2 ^ 53 \<longrightarrow> fallbackScore name sz = spec_estimate name sz)
     \<and> 40 \<le> fallbackScore name sz \<and> fallbackScore name sz \<le> 100"
  using fallbackScore_spec_estimate [of sz name] fallbackScore_bounds [of name sz] by simp

theorem C1_fallbackScore_is_spec_estimate_witness:
  "(12345 :: nat) < 2 ^ 53
     \<and> fallbackScore (js ''cv.pdf'') 12345 = spec_estimate (js ''cv.pdf'') 12345
     \<and> fallbackScore (js ''cv.pdf'') 12345 = 76"
proof -
  have b: "(12345 :: nat) < 2 ^ 53" by simp
  have "fallbackScore (js ''cv.pdf'') 12345 = spec_estimate (js ''cv.pdf'') 12345"
    using C1_fallbackScore_is_spec_estimate [of 12345 "js ''cv.pdf''"] b by blast
  then show ?thesis using b sample_score by simp
qed

text \<open>
  Claim C1 as stated fails for the file \<open>cv.pdf\<close> of \<open>2^60 = 1152921504606846976\<close>
  bytes: the number prints as 1152921504606847000, the shortest digits that denote it,
  not as its decimal digits, and the score is 74 where the specification's algorithm
  gives 70.
\<close>

theorem C1_size_not_printed_in_full:
  "toString 1152921504606846976 = js ''1152921504606847000''
     \<and> spec_decimal 1152921504606846976 = js ''1152921504606846976''
     \<and> fallbackScore (js ''cv.pdf'') 1152921504606846976 = 74
     \<and> spec_estimate (js ''cv.pdf'') 1152921504606846976 = 70"
proof -
  have t: "toString 1152921504606846976 = js ''1152921504606847000''"
    by (simp add: toString_eval js_def)
  have d: "spec_decimal 1152921504606846976 = js ''1152921504606846976''"
    by (simp add: digitsOf_spec_decimal [symmetric] digitsOf_eval js_def)
  have "sint (spec_hash (js ''cv.pdf'' @ js ''1152921504606847000'')) = - 1613781508"
    by (simp add: spec_hash_def spec_step_def js_def)
  then have f: "fallbackScore (js ''cv.pdf'') 1152921504606846976 = 74"
    by (simp add: fallbackScore_def Let_def hashLoop_spec_hash t)
  have "sint (spec_hash (js ''cv.pdf'' @ js ''1152921504606846976'')) = - 1613802427"
    by (simp add: spec_hash_def spec_step_def js_def)
  then have e: "spec_estimate (js ''cv.pdf'') 1152921504606846976 = 70"
    by (simp add: spec_estimate_def d)
  show ?thesis using t d f e by simp
qed

section \<open>Properties of \<open>processFile\<close>\<close>

lemma of_char_less_256: "(of_char c :: nat) < 256"
proof -
  have "(of_char c :: nat) mod 256 < 256" by simp
  then show ?thesis by (simp only: of_char_mod_256)
qed

lemma js_unit_inj: "(of_nat (of_char c) :: 16 word) = of_nat (of_char d) \<longleftrightarrow> c = d"
proof
  assume h: "(of_nat (of_char c) :: 16 word) = of_nat (of_char d)"
  have c: "(of_char c :: nat) < 65536"
    using of_char_less_256 [of c] by linarith
  have d: "(of_char d :: nat) < 65536"
    using of_char_less_256 [of d] by linarith
  from h have "unat (of_nat (of_char c) :: 16 word) = unat (of_nat (of_char d) :: 16 word)"
    by simp
  then have "(of_char c :: nat) = of_char d"
    using c d by (simp add: unat_of_nat)
  then show "c = d" by simp
qed simp

lemma js_inject [simp]: "js a = js b \<longleftrightarrow> a = b"
  unfolding js_def
  by (rule inj_map_eq_map) (simp add: inj_on_def js_unit_inj)

lemma js_Nil [simp]: "js s = [] \<longleftrightarrow> s = []"
  by (simp add: js_def)

lemma progressLoop_unfold:
  "progressLoop fileId 0 prev =
     setProgress fileId 100 (setProgress fileId 75 (setProgress fileId 50
       (setProgress fileId 25 (setProgress fileId 0 prev))))"
  by (simp add: progressLoop.simps)

lemma progressLoop_0:
  "progressLoop fileId 0 prev =
     map (\<lambda>f. if uf_id f = fileId then f\<lparr>uf_progress := 100\<rparr> else f) prev"
  unfolding progressLoop_unfold setProgress_def
  by (induction prev) auto

lemma update_others:
  "\<forall>f \<in> set fs. uf_id f \<noteq> fileId \<Longrightarrow>
     map (\<lambda>f. if uf_id f = fileId then g f else f) fs = fs"
  by (induction fs) auto

lemma fallback_pipeline:
  "setScored fileId s (setParsing fileId (progressLoop fileId 0 (fs @ [newFile fileId file])))
     = map (\<lambda>f. if uf_id f = fileId
                  then f\<lparr>uf_status := Scored, uf_progress := 100, uf_score := Some s\<rparr>
                  else f) fs
       @ [(newFile fileId file)\<lparr>uf_status := Scored, uf_progress := 100, uf_score := Some s\<rparr>]"
  unfolding progressLoop_0 setParsing_def setScored_def
  by (induction fs) (auto simp: newFile_def)

lemma processFile_fallback:
  assumes "backendAvailable st \<noteq> Some True"
    and "List.member validTypes (file_type file)"
    and "\<not> isDuplicate (files st) file"
  shows "processFile scoreCV fileId st file =
     (st\<lparr>files :=
          map (\<lambda>f. if uf_id f = fileId
                  then f\<lparr>uf_status := Scored, uf_progress := 100,
                         uf_score := Some (of_int (fallbackScore (file_name file) (file_size file)))\<rparr>
                  else f) (files st)
          @ [estimatedEntry fileId file]\<rparr>, [])"
proof -
  have e: "(newFile fileId file)\<lparr>uf_status := Scored, uf_progress := 100,
             uf_score := Some (of_int (fallbackScore (file_name file) (file_size file)))\<rparr>
           = estimatedEntry fileId file"
    by (simp add: estimatedEntry_def newFile_def)
  show ?thesis
    using assms by (simp add: processFile_def Let_def fallback_pipeline e)
qed

lemma sample_valid: "List.member validTypes (file_type sample_file)"
  by (simp add: validTypes_def sample_file_def)

text \<open>
  Claim C10. The duplicate guard: when the list already holds an entry with the name
  and the size of the file, \<open>processFile\<close> leaves the state, and so the list, as it was;
  all it does is one alert (the duplicate alert for a supported type, the type alert
  otherwise), with no request to the backend and no score.
\<close>

theorem C10_duplicate_upload_guard:
  assumes "isDuplicate (files st) file"
  shows "fst (processFile scoreCV fileId st file) = st
    \<and> snd (processFile scoreCV fileId st file) =
        [if List.member validTypes (file_type file)
         then Alert_duplicate (file_name file)
         else Alert_unsupported (file_name file)]"
  using assms by (simp add: processFile_def)

theorem C10_duplicate_upload_guard_witness:
  "isDuplicate (files (initial_state\<lparr>files := [estimatedEntry (js ''f1'') sample_file]\<rparr>)) sample_file
   \<and> fst (processFile (scoreCV_responds 7) (js ''f2'')
            (initial_state\<lparr>files := [estimatedEntry (js ''f1'') sample_file]\<rparr>) sample_file)
       = initial_state\<lparr>files := [estimatedEntry (js ''f1'') sample_file]\<rparr>
   \<and> snd (processFile (scoreCV_responds 7) (js ''f2'')
            (initial_state\<lparr>files := [estimatedEntry (js ''f1'') sample_file]\<rparr>) sample_file)
       = [Alert_duplicate (js ''cv.pdf'')]"
proof -
  have d: "isDuplicate (files (initial_state\<lparr>files := [estimatedEntry (js ''f1'') sample_file]\<rparr>)) sample_file"
    by (simp add: isDuplicate_def estimatedEntry_def)
  show ?thesis
    using d C10_duplicate_upload_guard [OF d, of "scoreCV_responds 7" "js ''f2''"] sample_valid
    by (simp add: sample_file_def)
qed

text \<open>
  Claim C2. The simulation-mode score is a function of the name and the size of the file
  alone: two calls in simulation mode on files with the same name and size record the same
  score, whatever the lists, the ids drawn, the jobs and the backends of the two calls;
  the score is \<open>fallbackScore\<close> of the name and the size, a total function, and the call
  ends with the entry scored, with no error recorded and no alert.
\<close>

theorem C2_fallback_score_pure_and_total:
  assumes "backendAvailable sta \<noteq> Some True" and "backendAvailable stb \<noteq> Some True"
    and "List.member validTypes (file_type fa)" and "List.member validTypes (file_type fb)"
    and "\<not> isDuplicate (files sta) fa" and "\<not> isDuplicate (files stb) fb"
    and "file_name fa = file_name fb" and "file_size fa = file_size fb"
  shows "uf_score (last (files (fst (processFile sca ida sta fa))))
           = uf_score (last (files (fst (processFile scb idb stb fb))))
    \<and> uf_score (last (files (fst (processFile sca ida sta fa))))
           = Some (of_int (fallbackScore (file_name fa) (file_size fa)))
    \<and> uf_status (last (files (fst (processFile sca ida sta fa)))) = Scored
    \<and> uf_error (last (files (fst (processFile sca ida sta fa)))) = None
    \<and> snd (processFile sca ida sta fa) = []"
  using assms
  by (simp add: processFile_fallback estimatedEntry_def)

theorem C2_fallback_score_pure_and_total_witness:
  "uf_score (last (files (fst (processFile (scoreCV_responds 7) (js ''f1'') initial_state sample_file))))
     = uf_score (last (files (fst (processFile (scoreCV_responds 9) (js ''f2'') later_state sample_file))))
   \<and> uf_score (last (files (fst (processFile (scoreCV_responds 7) (js ''f1'') initial_state sample_file))))
     = Some 76"
proof -
  have a: "backendAvailable initial_state \<noteq> Some True"
    by (simp add: initial_state_def)
  have b: "backendAvailable later_state \<noteq> Some True"
    by (simp add: later_state_def)
  have c: "\<not> isDuplicate (files initial_state) sample_file"
    by (simp add: initial_state_def isDuplicate_def)
  have d: "\<not> isDuplicate (files later_state) sample_file"
    by (simp add: later_state_def isDuplicate_def estimatedEntry_def sample_file_def)
  note h = C2_fallback_score_pure_and_total
      [where sta = initial_state and stb = later_state and fa = sample_file and fb = sample_file
         and sca = "scoreCV_responds 7" and ida = "js ''f1''"
         and scb = "scoreCV_responds 9" and idb = "js ''f2''",
       OF a b sample_valid sample_valid c d refl refl]
  have "fallbackScore (file_name sample_file) (file_size sample_file) = 76"
    by (simp add: sample_file_def sample_score)
  then show ?thesis
    using h [THEN conjunct1] h [THEN conjunct2, THEN conjunct1] by simp
qed

text \<open>
  Claim C8, as amended. In simulation mode (\<open>backendAvailable\<close> is \<open>false\<close> or still
  \<open>null\<close>) a supported file that is not a duplicate, under a fresh id, adds one entry and
  changes nothing else: the entry has the status \<open>scored\<close>, the progress 100 and the
  estimated score, and \<open>candidateId\<close>, \<open>candidateName\<close> and \<open>error\<close> stay undefined (an
  entry has no matched or missing fields). Nothing in the entry marks the score as an
  estimate: its row shows the tag of a scored file and a score link to \<open>#\<close>, and the
  simulation banner of the page is shown exactly when \<open>backendAvailable\<close> is \<open>false\<close>.
\<close>

theorem C8_fallback_entry_untagged:
  assumes "backendAvailable st \<noteq> Some True"
    and "List.member validTypes (file_type file)"
    and "\<not> isDuplicate (files st) file"
    and "\<forall>f \<in> set (files st). uf_id f \<noteq> fileId"
  shows "processFile scoreCV fileId st file =
           (st\<lparr>files := files st @
               [\<lparr>uf_id = fileId, uf_name = file_name file, uf_size = file_size file,
                 uf_status = Scored, uf_progress = 100,
                 uf_score = Some (of_int (fallbackScore (file_name file) (file_size file))),
                 uf_candidateId = None, uf_candidateName = None, uf_error = None\<rparr>]\<rparr>, [])
    \<and> shown_tag (rowView (estimatedEntry fileId file)) = Tag_Scored
    \<and> shown_score (rowView (estimatedEntry fileId file)) =
         Some \<lparr>link_to = None,
               link_colour = getScoreColor (of_int (fallbackScore (file_name file) (file_size file))),
               link_number = of_int (fallbackScore (file_name file) (file_size file))\<rparr>
    \<and> (shownBanner (backendAvailable st) = Some Banner_simulation
           \<longleftrightarrow> backendAvailable st = Some False)"
proof -
  have "processFile scoreCV fileId st file =
          (st\<lparr>files := files st @ [estimatedEntry fileId file]\<rparr>, [])"
    using assms by (simp add: processFile_fallback update_others)
  moreover have "shownBanner (backendAvailable st) = Some Banner_simulation
           \<longleftrightarrow> backendAvailable st = Some False"
    by (cases "backendAvailable st") (auto simp: shownBanner_def split: bool.splits)
  ultimately show ?thesis
    by (simp add: estimatedEntry_def rowView_def)
qed

theorem C8_fallback_entry_untagged_witness:
  "processFile (scoreCV_responds 7) (js ''f1'') later_state sample_file =
     (later_state\<lparr>files := files later_state @
        [\<lparr>uf_id = js ''f1'', uf_name = js ''cv.pdf'', uf_size = 12345,
          uf_status = Scored, uf_progress = 100, uf_score = Some 76,
          uf_candidateId = None, uf_candidateName = None, uf_error = None\<rparr>]\<rparr>, [])
   \<and> shownBanner (backendAvailable later_state) = Some Banner_simulation"
proof -
  have a: "backendAvailable later_state \<noteq> Some True"
    by (simp add: later_state_def)
  have c: "\<not> isDuplicate (files later_state) sample_file"
    by (simp add: later_state_def isDuplicate_def estimatedEntry_def sample_file_def)
  have d: "\<forall>f \<in> set (files later_state). uf_id f \<noteq> js ''f1''"
    by (simp add: later_state_def estimatedEntry_def)
  note h = C8_fallback_entry_untagged [OF a sample_valid c d, of "scoreCV_responds 7"]
  have "fallbackScore (file_name sample_file) (file_size sample_file) = 76"
    by (simp add: sample_file_def sample_score)
  moreover have "backendAvailable later_state = Some False"
    by (simp add: later_state_def)
  ultimately show ?thesis
    using h [THEN conjunct1] h [THEN conjunct2, THEN conjunct2, THEN conjunct2]
    by (simp add: sample_file_def)
qed

text \<open>
  Claim C8 as stated fails. A file scored in simulation mode while \<open>backendAvailable\<close>
  is still \<open>null\<close> (no banner is shown then) and a file scored by a backend that answers
  76 with candidate id 0 and no name give, once the health check has succeeded, the same
  banner and the same row. With candidate id 7 the two rows still agree in the name, the
  size, the progress, the tag, the colour and the number: they differ in the target of
  the score link alone.
\<close>

theorem C8_estimated_shown_as_computed:
  "pageView (init True None (fst (processFile (scoreCV_responds 0) (js ''f1'') initial_state sample_file)))
     = pageView (fst (processFile (scoreCV_responds 0) (js ''f1'') (init True None initial_state) sample_file))
   \<and> shownBanner (backendAvailable initial_state) = None
   \<and> rowView (last (files (fst (processFile (scoreCV_responds 7) (js ''f1'') initial_state sample_file))))
     = \<lparr>shown_name = js ''cv.pdf'', shown_size = 12345, shown_progress = 100,
        shown_error_background = False, shown_tag = Tag_Scored,
        shown_score = Some \<lparr>link_to = None, link_colour = Colour_warning, link_number = 76\<rparr>\<rparr>
   \<and> rowView (last (files (fst (processFile (scoreCV_responds 7) (js ''f1'')
                (init True None initial_state) sample_file))))
     = \<lparr>shown_name = js ''cv.pdf'', shown_size = 12345, shown_progress = 100,
        shown_error_background = False, shown_tag = Tag_Scored,
        shown_score = Some \<lparr>link_to = Some 7, link_colour = Colour_warning, link_number = 76\<rparr>\<rparr>"
proof -
  have a: "backendAvailable initial_state \<noteq> Some True"
    by (simp add: initial_state_def)
  have c: "\<not> isDuplicate (files initial_state) sample_file"
    by (simp add: initial_state_def isDuplicate_def)
  have f: "fst (processFile sc (js ''f1'') initial_state sample_file)
             = initial_state\<lparr>files := [estimatedEntry (js ''f1'') sample_file]\<rparr>" for sc
    using processFile_fallback [OF a sample_valid c, of sc "js ''f1''"]
    by (simp add: initial_state_def)
  have p: "setBackendScored fileId r (setParsing fileId (progressLoop fileId 0 [newFile fileId fl]))
            = [(newFile fileId fl)\<lparr>uf_status := Scored, uf_progress := 100,
                 uf_score := Some (total_score r), uf_candidateId := Some (candidate_id r),
                 uf_candidateName := orUndefined (candidate_name r)\<rparr>]" for fileId r fl
    by (simp add: progressLoop_0 setParsing_def setBackendScored_def newFile_def)
  have b: "fst (processFile (scoreCV_responds k) (js ''f1'') (init True None initial_state) sample_file)
             = (init True None initial_state)\<lparr>files :=
                 [(newFile (js ''f1'') sample_file)\<lparr>uf_status := Scored, uf_progress := 100,
                    uf_score := Some 76, uf_candidateId := Some k, uf_candidateName := None\<rparr>]\<rparr>" for k
    using sample_valid
    by (simp add: processFile_def Let_def init_def initial_state_def isDuplicate_def p
        scoreCV_responds_def orUndefined_def)
  show ?thesis
    unfolding f b
    by (simp add: pageView_def rowView_def estimatedEntry_def newFile_def init_def
        initial_state_def shownBanner_def sample_file_def sample_score getScoreColor_def)
qed


section \<open>Properties of the score bands and of the weight panel\<close>

text \<open>
  Claim C4. The classifier splits the scores into three bands by the thresholds 80 and
  60: a score is in the high band exactly when it is at least 80, in the medium band
  exactly when it is at least 60 and below 80, and in the low band exactly when it is
  below 60; so every score is in one band and in no two. Both declarations of
  \<open>getScoreClass\<close> agree.
\<close>

theorem C4_score_bands_partition:
  "(getScoreClass_Dashboard s = High \<longleftrightarrow> s \<ge> 80)
   \<and> (getScoreClass_Dashboard s = Medium \<longleftrightarrow> 60 \<le> s \<and> s < 80)
   \<and> (getScoreClass_Dashboard s = Low \<longleftrightarrow> s < 60)
   \<and> getScoreClass_CandidateDetail s = getScoreClass_Dashboard s"
  by (simp add: getScoreClass_Dashboard_def getScoreClass_CandidateDetail_def)

text \<open>
  Claim C9, as amended. For every assignment of integer weights of magnitude at most
  \<open>2^50\<close> to the six criteria, the total shown is the sum of the six weights; the
  warning is rendered exactly when that sum is not 100, and carries the sum. A sum other
  than 100 is tolerated: with the backend available \<open>handleSave\<close> sends the six weights
  as they are, neither refusing nor rescaling them.
\<close>

theorem C9_total_weight_and_warning:
  assumes "integerWeight (w_education w)" and "integerWeight (w_experience w)"
    and "integerWeight (w_skills w)" and "integerWeight (w_bootcamp w)"
    and "integerWeight (w_portfolio w)" and "integerWeight (w_location w)"
  shows "totalWeight w = w_education w + w_experience w + w_skills w
                         + w_bootcamp w + w_portfolio w + w_location w
   \<and> panel_total (weightPanel w) = totalWeight w
   \<and> (panel_warning (weightPanel w) = Some (totalWeight w) \<longleftrightarrow> totalWeight w \<noteq> 100)
   \<and> (panel_warning (weightPanel w) = None \<longleftrightarrow> totalWeight w = 100)
   \<and> handleSave (Some True) None w = CreateJob w
   \<and> handleSave (Some True) (Some i) w = UpdateJob i w"
  using totalWeight_integers [OF assms]
  by (simp add: weightPanel_def handleSave_def buildRequirements_same)

theorem C9_total_weight_and_warning_witness:
  "integerWeight 15 \<and> integerWeight 25 \<and> integerWeight 40
   \<and> integerWeight 10 \<and> integerWeight 5
   \<and> totalWeight default_weights = 110
   \<and> panel_warning (weightPanel default_weights) = Some 110
   \<and> handleSave (Some True) None default_weights = CreateJob default_weights"
proof -
  have i: "integerWeight 15" "integerWeight 25" "integerWeight 40"
      "integerWeight 10" "integerWeight 5"
    by (simp_all add: integerWeight_def)
  have f: "w_education default_weights = 15" "w_experience default_weights = 25"
      "w_skills default_weights = 40" "w_bootcamp default_weights = 10"
      "w_portfolio default_weights = 15" "w_location default_weights = 5"
    by (simp_all add: default_weights_def)
  note h = C9_total_weight_and_warning [of default_weights, unfolded f,
      OF i(1) i(2) i(3) i(4) i(1) i(5)]
  have t: "totalWeight default_weights = 110"
    using h [THEN conjunct1] by simp
  have "panel_warning (weightPanel default_weights) = Some (totalWeight default_weights)"
    using h [THEN conjunct2, THEN conjunct2, THEN conjunct1] t by simp
  then show ?thesis
    using i t h [THEN conjunct2, THEN conjunct2, THEN conjunct2, THEN conjunct2, THEN conjunct1]
    by simp
qed

text \<open>
  Claim C9 as stated fails for weights that are not integers. With the numbers that the
  decimals 0.1, 0.2, 0.3, 99.1, 0.2 and 0.1 denote, the total shown is \<open>100 - 2^-46\<close>
  (printed as 99.99999999999999), which is not the sum of the six weights. With the
  weights \<open>2^-60\<close>, 100, 0, 0, 0 and 0 the sum of the weights is not 100, yet the total
  shown is 100 and no warning is rendered.
\<close>

theorem C9_total_is_a_rounded_sum:
  "totalWeight decimal_weights = 100 - 1 / 2 ^ 46
   \<and> w_education decimal_weights + w_experience decimal_weights + w_skills decimal_weights
       + w_bootcamp decimal_weights + w_portfolio decimal_weights + w_location decimal_weights
     \<noteq> totalWeight decimal_weights
   \<and> panel_warning (weightPanel decimal_weights) = Some (100 - 1 / 2 ^ 46)
   \<and> w_education tiny_weights + w_experience tiny_weights + w_skills tiny_weights
       + w_bootcamp tiny_weights + w_portfolio tiny_weights + w_location tiny_weights
     \<noteq> 100
   \<and> totalWeight tiny_weights = 100
   \<and> panel_warning (weightPanel tiny_weights) = None"
proof -
  have "w_education decimal_weights + w_experience decimal_weights + w_skills decimal_weights
       + w_bootcamp decimal_weights + w_portfolio decimal_weights + w_location decimal_weights
     \<noteq> 100 - 1 / 2 ^ 46"
    by (simp add: decimal_weights_values)
  moreover have "w_education tiny_weights + w_experience tiny_weights + w_skills tiny_weights
       + w_bootcamp tiny_weights + w_portfolio tiny_weights + w_location tiny_weights
     \<noteq> 100"
    by (simp add: tiny_weights_def)
  moreover have "(100 :: real) - 1 / 2 ^ 46 \<noteq> 100"
    by simp
  ultimately show ?thesis
    by (simp add: weightPanel_def totalWeight_decimal_weights totalWeight_tiny_weights)
qed

section \<open>Properties of the data\<close>

lemma nth_candidates:
  "candidates ! 0 = candidate_1" "candidates ! 1 = candidate_2"
  "candidates ! 2 = candidate_3" "candidates ! 3 = candidate_4"
  by (simp_all add: candidates_def)

lemma Ball_candidates:
  "(\<forall>c \<in> set candidates. P c) \<longleftrightarrow> P candidate_1 \<and> P candidate_2 \<and> P candidate_3 \<and> P candidate_4"
  by (simp add: candidates_def)

text \<open>
  Claim C3. The status derived from a total score is \<open>shortlisted\<close> exactly from 80 up,
  \<open>review\<close> exactly from 60 up to 80 and \<open>rejected\<close> exactly below 60, and it is never
  \<open>interview\<close>; every candidate of the data has the status derived from its score.
\<close>

theorem C3_status_follows_thresholds:
  "(derive_status s = Shortlisted \<longleftrightarrow> s \<ge> 80)
   \<and> (derive_status s = Review \<longleftrightarrow> 60 \<le> s \<and> s < 80)
   \<and> (derive_status s = Rejected \<longleftrightarrow> s < 60)
   \<and> derive_status s \<noteq> Interview
   \<and> (\<forall>c \<in> set candidates. c_status c = derive_status (c_score c) \<and> c_status c \<noteq> Interview)"
proof -
  have "\<forall>c \<in> set candidates. c_status c = derive_status (c_score c) \<and> c_status c \<noteq> Interview"
    by (simp add: candidates_def candidate_1_def candidate_2_def candidate_3_def candidate_4_def
        derive_status_def)
  then show ?thesis
    by (simp add: derive_status_def)
qed

theorem C3_status_follows_thresholds_witness:
  "c_score (candidates ! 1) = 78.5
   \<and> c_status (candidates ! 1) = Review
   \<and> derive_status (c_score (candidates ! 1)) = Review"
proof -
  have m: "candidates ! 1 \<in> set candidates"
    by (simp add: candidates_def)
  have "c_status (candidates ! 1) = derive_status (c_score (candidates ! 1))"
    using C3_status_follows_thresholds [of 0] m by blast
  moreover have "c_score (candidates ! 1) = 78.5" and "c_status (candidates ! 1) = Review"
    by (simp_all add: candidates_def candidate_2_def)
  ultimately show ?thesis by simp
qed


lemma skills_of_candidates:
  "ss_matched (sb_skills (c_scoreBreakdown candidate_1)) = [js ''Python'', js ''SQL'', js ''Docker'']"
  "ss_missing (sb_skills (c_scoreBreakdown candidate_1)) = []"
  "ss_matched (sb_skills (c_scoreBreakdown candidate_2)) = [js ''Python'', js ''SQL'', js ''Docker'']"
  "ss_missing (sb_skills (c_scoreBreakdown candidate_2)) = [js ''REST API'']"
  "ss_matched (sb_skills (c_scoreBreakdown candidate_3)) = [js ''Python'']"
  "ss_missing (sb_skills (c_scoreBreakdown candidate_3)) = [js ''SQL'', js ''Docker'']"
  "ss_matched (sb_skills (c_scoreBreakdown candidate_4)) = []"
  "ss_missing (sb_skills (c_scoreBreakdown candidate_4)) = [js ''Python'', js ''SQL'', js ''Docker'']"
  by (simp_all add: candidate_1_def candidate_2_def candidate_3_def candidate_4_def)

lemma ids_of_candidates:
  "c_id candidate_1 = js ''1''" "c_id candidate_2 = js ''2''"
  "c_id candidate_3 = js ''3''" "c_id candidate_4 = js ''4''"
  by (simp_all add: candidate_1_def candidate_2_def candidate_3_def candidate_4_def)

lemma skills_of_job:
  "sr_required (jr_skills jobRequirements) = [js ''Python'', js ''SQL'', js ''REST API'']"
  "sr_preferred (jr_skills jobRequirements) = [js ''Docker'', js ''AWS'', js ''PostgreSQL'']"
  by (simp_all add: jobRequirements_def)

text \<open>
  Claim C5, as amended. In every skills breakdown of the data \<open>matched\<close> and \<open>missing\<close>
  have no element in common, and every element of either is a required or a preferred
  skill of the job. Together they hold the required skills Python and SQL and the
  preferred skill Docker, and nothing else, for every candidate but the second; for the
  second candidate they hold these three and the required skill REST API.
\<close>

theorem C5_dataset_skills_within_job_skills:
  "\<forall>c \<in> set candidates.
     set (ss_matched (sb_skills (c_scoreBreakdown c)))
       \<inter> set (ss_missing (sb_skills (c_scoreBreakdown c))) = {}
     \<and> set (ss_matched (sb_skills (c_scoreBreakdown c)))
         \<union> set (ss_missing (sb_skills (c_scoreBreakdown c)))
       \<subseteq> set (sr_required (jr_skills jobRequirements))
           \<union> set (sr_preferred (jr_skills jobRequirements))
     \<and> set (ss_matched (sb_skills (c_scoreBreakdown c)))
         \<union> set (ss_missing (sb_skills (c_scoreBreakdown c)))
       = (if c_id c = c_id (candidates ! 1)
          then {js ''Python'', js ''SQL'', js ''Docker'', js ''REST API''}
          else {js ''Python'', js ''SQL'', js ''Docker''})"
  unfolding Ball_candidates nth_candidates skills_of_candidates skills_of_job ids_of_candidates
  by auto

theorem C5_dataset_skills_within_job_skills_witness:
  "set (ss_matched (sb_skills (c_scoreBreakdown (candidates ! 2))))
     \<inter> set (ss_missing (sb_skills (c_scoreBreakdown (candidates ! 2)))) = {}
   \<and> set (ss_matched (sb_skills (c_scoreBreakdown (candidates ! 2))))
     \<union> set (ss_missing (sb_skills (c_scoreBreakdown (candidates ! 2))))
     = {js ''Python'', js ''SQL'', js ''Docker''}
   \<and> ss_matched (sb_skills (c_scoreBreakdown (candidates ! 2))) = [js ''Python'']
   \<and> ss_missing (sb_skills (c_scoreBreakdown (candidates ! 2))) = [js ''SQL'', js ''Docker'']"
proof -
  have m: "candidates ! 2 \<in> set candidates"
    by (simp add: candidates_def)
  have n: "c_id (candidates ! 2) \<noteq> c_id (candidates ! 1)"
    unfolding nth_candidates ids_of_candidates by simp
  note h = C5_dataset_skills_within_job_skills [THEN bspec, OF m]
  have "set (ss_matched (sb_skills (c_scoreBreakdown (candidates ! 2))))
     \<inter> set (ss_missing (sb_skills (c_scoreBreakdown (candidates ! 2)))) = {}"
    using h by blast
  moreover have "set (ss_matched (sb_skills (c_scoreBreakdown (candidates ! 2))))
     \<union> set (ss_missing (sb_skills (c_scoreBreakdown (candidates ! 2))))
     = {js ''Python'', js ''SQL'', js ''Docker''}"
    using h [THEN conjunct2, THEN conjunct2] n by simp
  ultimately show ?thesis
    by (simp add: nth_candidates skills_of_candidates)
qed

text \<open>
  Claim C5 as stated fails. On the second candidate \<open>matched\<close> and \<open>missing\<close> do not make
  up the required list of the job: Docker, a preferred skill, is in \<open>matched\<close>. On the
  first candidate the required skill REST API is in neither list.
\<close>

theorem C5_dataset_skills_not_required_list:
  "\<not> skills_partition (sr_required (jr_skills jobRequirements))
        (ss_matched (sb_skills (c_scoreBreakdown (candidates ! 1))))
        (ss_missing (sb_skills (c_scoreBreakdown (candidates ! 1))))
   \<and> List.member (sr_preferred (jr_skills jobRequirements)) (js ''Docker'')
   \<and> List.member (ss_matched (sb_skills (c_scoreBreakdown (candidates ! 1)))) (js ''Docker'')
   \<and> List.member (sr_required (jr_skills jobRequirements)) (js ''REST API'')
   \<and> \<not> List.member (ss_matched (sb_skills (c_scoreBreakdown (candidates ! 0)))) (js ''REST API'')
   \<and> \<not> List.member (ss_missing (sb_skills (c_scoreBreakdown (candidates ! 0)))) (js ''REST API'')
   \<and> \<not> skills_partition (sr_required (jr_skills jobRequirements))
        (ss_matched (sb_skills (c_scoreBreakdown (candidates ! 0))))
        (ss_missing (sb_skills (c_scoreBreakdown (candidates ! 0))))"
proof -
  have "js ''Docker'' \<in> set [js ''Python'', js ''SQL'', js ''Docker''] \<union> set [js ''REST API'']"
    by simp
  moreover have "js ''Docker'' \<notin> set [js ''Python'', js ''SQL'', js ''REST API'']"
    by simp
  ultimately have a: "set [js ''Python'', js ''SQL'', js ''Docker''] \<union> set [js ''REST API'']
                     \<noteq> set [js ''Python'', js ''SQL'', js ''REST API'']"
    by metis
  have "js ''Docker'' \<in> set [js ''Python'', js ''SQL'', js ''Docker''] \<union> set []"
    by simp
  moreover have "js ''Docker'' \<notin> set [js ''Python'', js ''SQL'', js ''REST API'']"
    by simp
  ultimately have b: "set [js ''Python'', js ''SQL'', js ''Docker''] \<union> set []
                     \<noteq> set [js ''Python'', js ''SQL'', js ''REST API'']"
    by metis
  show ?thesis
    using a b
    unfolding nth_candidates skills_of_candidates skills_of_job skills_partition_def
    by simp
qed

lemma bootcamps_of_candidates:
  "c_bootcamp candidate_1 = Some (js ''Hacktiv8'')"
  "ds_score (sb_bootcamp (c_scoreBreakdown candidate_1)) = 80"
  "c_bootcamp candidate_2 = Some (js ''Dicoding'')"
  "ds_score (sb_bootcamp (c_scoreBreakdown candidate_2)) = 60"
  "c_bootcamp candidate_3 = None"
  "ds_score (sb_bootcamp (c_scoreBreakdown candidate_3)) = 0"
  "c_bootcamp candidate_4 = None"
  "ds_score (sb_bootcamp (c_scoreBreakdown candidate_4)) = 0"
  by (simp_all add: candidate_1_def candidate_2_def candidate_3_def candidate_4_def)

lemma providers_of_job:
  "br_preferredProviders (jr_bootcamp jobRequirements) =
     [js ''Hacktiv8'', js ''Binar Academy'', js ''Dicoding'', js ''Purwadhika'',
      js ''Sanbercode'', js ''Coursera'']"
  by (simp add: jobRequirements_def)

text \<open>
  Claim C6, as amended. In the data a candidate with no bootcamp has the bootcamp score
  0, and a candidate with a bootcamp has one of the preferred providers of the job and
  the score 80 for Hacktiv8 and 60 for any other (Dicoding).
\<close>

theorem C6_dataset_bootcamp_scores:
  "\<forall>c \<in> set candidates.
     (case c_bootcamp c of
        None \<Rightarrow> ds_score (sb_bootcamp (c_scoreBreakdown c)) = 0
      | Some b \<Rightarrow>
          List.member (br_preferredProviders (jr_bootcamp jobRequirements)) b
          \<and> ds_score (sb_bootcamp (c_scoreBreakdown c)) = (if b = js ''Hacktiv8'' then 80 else 60))"
  unfolding Ball_candidates bootcamps_of_candidates providers_of_job
  by simp

theorem C6_dataset_bootcamp_scores_witness:
  "c_bootcamp (candidates ! 0) = Some (js ''Hacktiv8'')
   \<and> List.member (br_preferredProviders (jr_bootcamp jobRequirements)) (js ''Hacktiv8'')
   \<and> ds_score (sb_bootcamp (c_scoreBreakdown (candidates ! 0))) = 80"
proof -
  have m: "candidates ! 0 \<in> set candidates"
    by (simp add: candidates_def)
  have b: "c_bootcamp (candidates ! 0) = Some (js ''Hacktiv8'')"
    by (simp add: nth_candidates bootcamps_of_candidates)
  show ?thesis
    using C6_dataset_bootcamp_scores [THEN bspec, OF m] b by simp
qed

text \<open>
  Claim C6 as stated fails on the second candidate: the bootcamp Dicoding is a preferred
  provider of the job and the bootcamp score is 60, not 80.
\<close>

theorem C6_dataset_preferred_provider_scores_60:
  "c_bootcamp (candidates ! 1) = Some (js ''Dicoding'')
   \<and> List.member (br_preferredProviders (jr_bootcamp jobRequirements)) (js ''Dicoding'')
   \<and> ds_score (sb_bootcamp (c_scoreBreakdown (candidates ! 1))) = 60
   \<and> ds_score (sb_bootcamp (c_scoreBreakdown (candidates ! 1))) \<noteq> 80"
  unfolding nth_candidates bootcamps_of_candidates providers_of_job
  by simp

lemma locations_of_candidates:
  "c_location candidate_1 = js ''Jakarta''"
  "ds_score (sb_location (c_scoreBreakdown candidate_1)) = 100"
  "c_location candidate_2 = js ''Jakarta''"
  "ds_score (sb_location (c_scoreBreakdown candidate_2)) = 100"
  "c_location candidate_3 = js ''Bandung''"
  "ds_score (sb_location (c_scoreBreakdown candidate_3)) = 80"
  "c_location candidate_4 = js ''Surabaya''"
  "ds_score (sb_location (c_scoreBreakdown candidate_4)) = 60"
  by (simp_all add: candidate_1_def candidate_2_def candidate_3_def candidate_4_def)

lemma allowed_of_job:
  "lr_allowed (jr_location jobRequirements) = [js ''Jakarta'', js ''Bandung'', js ''Remote'']"
  by (simp add: jobRequirements_def)

lemma memberCI_allowed:
  "memberCI (js ''Jakarta'') [js ''Jakarta'', js ''Bandung'', js ''Remote'']"
  "memberCI (js ''Bandung'') [js ''Jakarta'', js ''Bandung'', js ''Remote'']"
  "\<not> memberCI (js ''Surabaya'') [js ''Jakarta'', js ''Bandung'', js ''Remote'']"
  by (simp_all add: memberCI_def toLowerCase_def lower_unit_def js_def)

text \<open>
  Claim C7, as amended. In the data a candidate whose location is, without regard to
  case, in the allowed list of the job has the location score 100 when the location is
  Jakarta and 80 otherwise (Bandung); a candidate whose location is not in the list has
  the score 60.
\<close>

theorem C7_dataset_location_scores:
  "\<forall>c \<in> set candidates.
     (if memberCI (c_location c) (lr_allowed (jr_location jobRequirements))
      then ds_score (sb_location (c_scoreBreakdown c))
             = (if c_location c = js ''Jakarta'' then 100 else 80)
      else ds_score (sb_location (c_scoreBreakdown c)) = 60)"
  unfolding Ball_candidates locations_of_candidates allowed_of_job
  by (simp add: memberCI_allowed)

theorem C7_dataset_location_scores_witness:
  "\<not> memberCI (c_location (candidates ! 3)) (lr_allowed (jr_location jobRequirements))
   \<and> ds_score (sb_location (c_scoreBreakdown (candidates ! 3))) = 60"
proof -
  have m: "candidates ! 3 \<in> set candidates"
    by (simp add: candidates_def)
  have n: "\<not> memberCI (c_location (candidates ! 3)) (lr_allowed (jr_location jobRequirements))"
    by (simp add: nth_candidates locations_of_candidates allowed_of_job memberCI_allowed)
  show ?thesis
    using C7_dataset_location_scores [THEN bspec, OF m] n by simp
qed

text \<open>
  Claim C7 as stated fails on the third candidate: the location Bandung is in the
  allowed list of the job and the location score is 80, not 100.
\<close>

theorem C7_dataset_allowed_location_scores_80:
  "memberCI (c_location (candidates ! 2)) (lr_allowed (jr_location jobRequirements))
   \<and> ds_score (sb_location (c_scoreBreakdown (candidates ! 2))) = 80
   \<and> ds_score (sb_location (c_scoreBreakdown (candidates ! 2))) \<noteq> 100"
  unfolding nth_candidates locations_of_candidates allowed_of_job
  by (simp add: memberCI_allowed)


end
